theory Spec2Isabelle
  imports Complex_Main "HOL-Library.Sublist"
begin

section \<open>Values, errors and the date-time type\<close>

text \<open>
  The module \<open>sunpy.time\<close> is Python 2 code. Its functions raise \<open>ValueError\<close> at several
  places; the embedding keeps the raise sites apart by a tag, so that a theorem can say
  which of them reached the caller. \<open>TypeError\<close> and \<open>OverflowError\<close> are the two other
  built-in exception classes that the standard library raises on the paths modelled here,
  and \<open>ReError\<close> is the class \<open>error\<close> of the module \<open>re\<close>, raised for a pattern that
  \<open>re\<close> refuses to compile. \<open>Regex_Unsupported\<close> is not a Python exception: it marks a
  format whose regular expression lies outside the fragment of \<open>re\<close> syntax that this
  development interprets.
\<close>

datatype value_error =
    Malformed_Time            \<comment> \<open>the bare \<open>raise ValueError\<close> of \<open>_regex_parse_time\<close>\<close>
  | Time_Data_Mismatch        \<comment> \<open>\<open>strptime\<close>: the data does not match the format\<close>
  | Unconverted_Data          \<comment> \<open>\<open>strptime\<close>: unconverted data remains\<close>
  | Bad_Directive             \<comment> \<open>\<open>strptime\<close>: bad directive or stray percent sign\<close>
  | Field_Out_Of_Range        \<comment> \<open>the range checks of the \<open>datetime\<close> constructor\<close>
  | Float_NaN                 \<comment> \<open>\<open>timedelta\<close>: a NaN cannot be converted to an integer\<close>
  | Not_A_Valid_Time_String   \<comment> \<open>the final \<open>raise\<close> of \<open>parse_time\<close>\<close>
  | Ambiguous_String          \<comment> \<open>\<open>extract_time\<close>: "Ambiguous string"\<close>
  | Time_Not_Found            \<comment> \<open>\<open>extract_time\<close>: "Time not found"\<close>

datatype error = TypeError | OverflowError | ValueError value_error | ReError | Regex_Unsupported

record datetime =
  year :: int
  month :: int
  day :: int
  hour :: int
  minute :: int
  second :: int
  microsecond :: int

record timedelta =
  days :: int
  seconds :: int
  microseconds :: int

text \<open>
  A Python \<open>float\<close> is an IEEE 754 double: a NaN, an infinity, or a finite value, which
  is a rational number (the two zeros are not told apart; nothing here depends on the
  sign of a zero).
\<close>

datatype pyfloat = Finite rat | PosInf | NegInf | NaN

text \<open>
  The argument of \<open>parse_time\<close> and \<open>is_time\<close> is dynamically typed, and the code tells
  the kinds apart with \<open>isinstance\<close>. Python 2 has two integer types: \<open>PInt n\<close> is an
  object of type \<open>int\<close> (a C \<open>long\<close>, so \<open>n\<close> lies in the range of \<open>int_object\<close>; the
  booleans are such objects, with the values 0 and 1) and \<open>PLong n\<close> is an object of type
  \<open>long\<close>, which is what an integer beyond that range always is; \<open>isinstance(x, int)\<close>
  is false of a \<open>long\<close>. \<open>PStr\<close> is a \<open>str\<close>. \<open>PByteArray\<close> is a \<open>bytearray\<close>: not a
  string, but an object with the buffer interface, which \<open>re.match\<close> accepts like a
  string. \<open>PList\<close> stands for the objects that are none of these kinds and have no
  buffer interface (lists, dictionaries and the like), which \<open>re.match\<close> rejects with a
  \<open>TypeError\<close>. Other objects with the buffer interface (\<open>buffer\<close>, \<open>mmap\<close>, arrays) are
  not part of the embedding.
\<close>

datatype pyval =
    PNone
  | PDatetime datetime
  | PTuple "pyval list"
  | PInt int
  | PLong int
  | PFloat pyfloat
  | PStr string
  | PByteArray string
  | PList "pyval list"

text \<open>The values of the objects of type \<open>int\<close>, where a C \<open>long\<close> has 64 bits (where it
  has 32, they are the values of that narrower range).\<close>

definition int_object :: "int \<Rightarrow> bool" where
  "int_object n = (- 9223372036854775808 \<le> n \<and> n \<le> 9223372036854775807)"

section \<open>The calendar of the \<open>datetime\<close> library\<close>

definition is_leap :: "int \<Rightarrow> bool" where
  "is_leap y = (y mod 4 = 0 \<and> (y mod 100 \<noteq> 0 \<or> y mod 400 = 0))"

definition days_in_month :: "int \<Rightarrow> int \<Rightarrow> int" where
  "days_in_month y m =
     (if m = 2 then (if is_leap y then 29 else 28)
      else if m = 4 \<or> m = 6 \<or> m = 9 \<or> m = 11 then 30 else 31)"

definition days_before_year :: "int \<Rightarrow> int" where
  "days_before_year y = (y - 1) * 365 + (y - 1) div 4 - (y - 1) div 100 + (y - 1) div 400"

definition days_before_month_tab :: "int list" where
  "days_before_month_tab = [0, 0, 31, 59, 90, 120, 151, 181, 212, 243, 273, 304, 334]"

definition days_before_month :: "int \<Rightarrow> int \<Rightarrow> int" where
  "days_before_month y m =
     days_before_month_tab ! nat m + (if m > 2 \<and> is_leap y then 1 else 0)"

definition ymd_to_ord :: "int \<Rightarrow> int \<Rightarrow> int \<Rightarrow> int" where
  "ymd_to_ord y m d = days_before_year y + days_before_month y m + d"

definition MAXORDINAL :: int where
  "MAXORDINAL = 3652059"

definition ord_to_ymd :: "int \<Rightarrow> int \<times> int \<times> int" where
  "ord_to_ymd ordinal =
     (let o1 = ordinal - 1;
          n400 = o1 div 146097; r400 = o1 mod 146097;
          n100 = r400 div 36524; r100 = r400 mod 36524;
          n4 = r100 div 1461; r4 = r100 mod 1461;
          n1 = r4 div 365; n = r4 mod 365;
          y = n400 * 400 + 1 + n100 * 100 + n4 * 4 + n1
      in if n1 = 4 \<or> n100 = 4 then (y - 1, 12, 31)
         else
           let leapyear = (n1 = 3 \<and> (n4 \<noteq> 24 \<or> n100 = 3));
               m = (n + 50) div 32;
               preceding = days_before_month_tab ! nat m + (if m > 2 \<and> leapyear then 1 else 0)
           in if preceding > n
              then (y, m - 1, n - (preceding - days_in_month y (m - 1)) + 1)
              else (y, m, n - preceding + 1))"

text \<open>The constructor \<open>datetime(year, month, day, hour, minute, second, microsecond)\<close>
  with its range checks; every failure is a \<open>ValueError\<close>.\<close>

definition mk_datetime ::
  "int \<Rightarrow> int \<Rightarrow> int \<Rightarrow> int \<Rightarrow> int \<Rightarrow> int \<Rightarrow> int \<Rightarrow> error + datetime" where
  "mk_datetime y mo d h mi s us =
     (if y < 1 \<or> y > 9999 then Inl (ValueError Field_Out_Of_Range)
      else if mo < 1 \<or> mo > 12 then Inl (ValueError Field_Out_Of_Range)
      else if d < 1 \<or> d > days_in_month y mo then Inl (ValueError Field_Out_Of_Range)
      else if h < 0 \<or> h > 23 then Inl (ValueError Field_Out_Of_Range)
      else if mi < 0 \<or> mi > 59 then Inl (ValueError Field_Out_Of_Range)
      else if s < 0 \<or> s > 59 then Inl (ValueError Field_Out_Of_Range)
      else if us < 0 \<or> us > 999999 then Inl (ValueError Field_Out_Of_Range)
      else Inr \<lparr>year = y, month = mo, day = d, hour = h, minute = mi, second = s,
                microsecond = us\<rparr>)"

text \<open>
  \<open>datetime(*t)\<close> for a tuple \<open>t\<close>. The constructor first looks for the state that
  pickling produces: one or two arguments of which the first is a \<open>str\<close> of ten bytes
  whose third byte is a month from 1 to 12. The ten bytes are then copied into the new
  object without any check: two bytes of year, the month, the day, the hour, the minute,
  the second and three bytes of microsecond. The second argument of that form is the time
  zone; time zone objects are not modelled, so anything but \<open>None\<close> there is a
  \<open>TypeError\<close>.
\<close>

definition pickle_state :: "pyval list \<Rightarrow> string option" where
  "pickle_state t =
     (case t of
        PStr st # rest \<Rightarrow>
          if length rest \<le> 1 \<and> length st = 10 \<and>
             1 \<le> (of_char (st ! 2) :: nat) \<and> (of_char (st ! 2) :: nat) \<le> 12
          then Some st else None
      | _ \<Rightarrow> None)"

definition datetime_of_state :: "string \<Rightarrow> datetime" where
  "datetime_of_state st =
     (let b = map of_char st
      in \<lparr>year = b ! 0 * 256 + b ! 1, month = b ! 2, day = b ! 3, hour = b ! 4,
          minute = b ! 5, second = b ! 6,
          microsecond = (b ! 7 * 256 + b ! 8) * 256 + b ! 9\<rparr>)"

text \<open>
  Otherwise the arguments are parsed as three to seven integers and an optional time
  zone. More than eight arguments are refused at once with a \<open>TypeError\<close>. Then the
  arguments that are present are converted to C integers from left to right: an
  argument that is neither an \<open>int\<close> nor a \<open>long\<close> is a \<open>TypeError\<close>, one that does not
  fit a C \<open>int\<close> an \<open>OverflowError\<close>. Only after them is a missing year, month or day
  noticed (a \<open>TypeError\<close>). The range checks of the fields follow, and the time zone is
  looked at last.
\<close>

definition as_integer :: "pyval \<Rightarrow> int option" where
  "as_integer v = (case v of PInt n \<Rightarrow> Some n | PLong n \<Rightarrow> Some n | _ \<Rightarrow> None)"

fun c_ints :: "pyval list \<Rightarrow> error + int list" where
  "c_ints [] = Inr []"
| "c_ints (v # vs) =
     (case as_integer v of
        None \<Rightarrow> Inl TypeError
      | Some n \<Rightarrow>
          if n < - 2147483648 \<or> n > 2147483647 then Inl OverflowError
          else case c_ints vs of Inl e \<Rightarrow> Inl e | Inr ns \<Rightarrow> Inr (n # ns))"

definition datetime_of_tuple :: "pyval list \<Rightarrow> error + datetime" where
  "datetime_of_tuple t =
     (case pickle_state t of
        Some st \<Rightarrow>
          if length t = 2 \<and> t ! 1 \<noteq> PNone then Inl TypeError else Inr (datetime_of_state st)
      | None \<Rightarrow>
          if length t > 8 then Inl TypeError
          else case c_ints (take 7 t) of
                 Inl e \<Rightarrow> Inl e
               | Inr ns \<Rightarrow>
                   if length t < 3 then Inl TypeError
                   else
                     (case ns @ replicate (7 - length ns) 0 of
                        [y, mo, d, h, mi, s, us] \<Rightarrow>
                          (case mk_datetime y mo d h mi s us of
                             Inl e \<Rightarrow> Inl e
                           | Inr dt \<Rightarrow>
                               if length t = 8 \<and> t ! 7 \<noteq> PNone then Inl TypeError
                               else Inr dt)
                      | _ \<Rightarrow> Inl TypeError))"

text \<open>\<open>timedelta(days, seconds)\<close> with integer arguments: the value is normalised to
  \<open>0 \<le> seconds < 86400\<close>, and more than 999999999 days either way is an
  \<open>OverflowError\<close>.\<close>

definition mk_timedelta :: "int \<Rightarrow> int \<Rightarrow> error + timedelta" where
  "mk_timedelta d s =
     (let d' = d + s div 86400; s' = s mod 86400
      in if d' < - 999999999 \<or> d' > 999999999 then Inl OverflowError
         else Inr \<lparr>days = d', seconds = s', microseconds = 0\<rparr>)"

text \<open>
  \<open>timedelta(0, x)\<close> for a \<open>float\<close> \<open>x\<close>. The constructor adds up a whole number of
  microseconds: the seconds are split (\<open>modf\<close>) into their integral part, which is
  converted exactly, and their fractional part; a fractional part that is not zero is
  multiplied by \<open>1e6\<close> in floating point, split again, and what is then left below one
  microsecond is rounded half away from zero (\<open>round_to_long\<close>: \<open>floor(x + 0.5)\<close> or
  \<open>ceil(x - 0.5)\<close>, computed in floating point). An infinity cannot be converted to an
  integer (\<open>OverflowError\<close>), nor can a NaN (\<open>ValueError\<close>). The sum is normalised as
  for integers.

  The product and the two sums are floating-point operations: their exact results are
  rounded to the nearest double, ties to the even mantissa. \<open>binade x\<close> is the exponent
  of \<open>x\<close>, at least that of the subnormal numbers; \<open>round_double\<close> rounds to 53
  significant bits (the numbers rounded here are below \<open>1e6\<close> in magnitude, so the
  overflow of that rounding is left out).
\<close>

definition double_exponents :: "int list" where
  "double_exponents = rev [- 1022..1023]"

definition binade :: "rat \<Rightarrow> int" where
  "binade x = (case find (\<lambda>e. 2 powi e \<le> \<bar>x\<bar>) double_exponents of
                 Some e \<Rightarrow> e | None \<Rightarrow> - 1022)"

definition round_half_even :: "rat \<Rightarrow> int" where
  "round_half_even x =
     (let f = \<lfloor>x\<rfloor>; d = x - of_int f
      in if d < 1 / 2 then f else if 1 / 2 < d then f + 1 else if even f then f else f + 1)"

definition round_double :: "rat \<Rightarrow> rat" where
  "round_double x =
     (let ulp = 2 powi (binade x - 52) in of_int (round_half_even (x / ulp)) * ulp)"

definition trunc :: "rat \<Rightarrow> int" where
  "trunc x = (if 0 \<le> x then \<lfloor>x\<rfloor> else \<lceil>x\<rceil>)"

definition round_to_long :: "rat \<Rightarrow> int" where
  "round_to_long x =
     (if 0 \<le> x then \<lfloor>round_double (x + 1 / 2)\<rfloor> else \<lceil>round_double (x - 1 / 2)\<rceil>)"

definition float_microseconds :: "rat \<Rightarrow> int" where
  "float_microseconds q =
     (let intpart = trunc q; fracpart = q - of_int intpart; sum = intpart * 1000000
      in if fracpart = 0 then sum
         else let dnum = round_double (1000000 * fracpart);
                  intpart2 = trunc dnum; leftover = dnum - of_int intpart2
              in if leftover = 0 then sum + intpart2
                 else sum + intpart2 + round_to_long leftover)"

definition microseconds_to_delta :: "int \<Rightarrow> error + timedelta" where
  "microseconds_to_delta us =
     (let s = us div 1000000; d = s div 86400
      in if d < - 999999999 \<or> d > 999999999 then Inl OverflowError
         else Inr \<lparr>days = d, seconds = s mod 86400, microseconds = us mod 1000000\<rparr>)"

definition mk_timedelta_float :: "pyfloat \<Rightarrow> error + timedelta" where
  "mk_timedelta_float x =
     (case x of
        Finite q \<Rightarrow> microseconds_to_delta (float_microseconds q)
      | NaN \<Rightarrow> Inl (ValueError Float_NaN)
      | _ \<Rightarrow> Inl OverflowError)"

text \<open>
  \<open>datetime + timedelta\<close>, as the C implementation computes it: the fields are added,
  carries are propagated from the microseconds up to the day, and the date is normalised.
  A day that is one off its month is handled directly, any other through the ordinal.
\<close>

definition normalize_pair :: "int \<Rightarrow> int \<Rightarrow> int \<Rightarrow> int \<times> int" where
  "normalize_pair hi lo factor =
     (if lo < 0 \<or> lo \<ge> factor then (hi + lo div factor, lo mod factor) else (hi, lo))"

definition normalize_y_m_d :: "int \<Rightarrow> int \<Rightarrow> int \<Rightarrow> error + int \<times> int \<times> int" where
  "normalize_y_m_d y0 m0 d =
     (let (y, m) = (if m0 < 1 \<or> m0 > 12
                    then (let (y1, m1) = normalize_pair y0 (m0 - 1) 12 in (y1, m1 + 1))
                    else (y0, m0));
          dim = days_in_month y m;
          in_range = (\<lambda>(y, m, d). if 1 \<le> y \<and> y \<le> 9999 then Inr (y, m, d)
                                   else Inl OverflowError)
      in if d < 1 \<or> d > dim then
           (if d = 0 then
              (if m - 1 > 0 then in_range (y, m - 1, days_in_month y (m - 1))
               else in_range (y - 1, 12, 31))
            else if d = dim + 1 then
              (if m + 1 > 12 then in_range (y + 1, 1, 1) else in_range (y, m + 1, 1))
            else
              (let ordinal = ymd_to_ord y m 1 + d - 1
               in if ordinal < 1 \<or> ordinal > MAXORDINAL then Inl OverflowError
                  else Inr (ord_to_ymd ordinal)))
         else in_range (y, m, d))"

definition datetime_add :: "datetime \<Rightarrow> timedelta \<Rightarrow> error + datetime" where
  "datetime_add dt td =
     (let (s1, us) = normalize_pair (second dt + seconds td)
                       (microsecond dt + microseconds td) 1000000;
          (mi1, s) = normalize_pair (minute dt) s1 60;
          (h1, mi) = normalize_pair (hour dt) mi1 60;
          (d1, h) = normalize_pair (day dt + days td) h1 24
      in case normalize_y_m_d (year dt) (month dt) d1 of
           Inl e \<Rightarrow> Inl e
         | Inr (y, mo, d) \<Rightarrow>
             Inr \<lparr>year = y, month = mo, day = d, hour = h, minute = mi, second = s,
                  microsecond = us\<rparr>)"

section \<open>Strings\<close>

definition is_digit :: "char \<Rightarrow> bool" where
  "is_digit c = (c \<in> set ''0123456789'')"

definition is_alpha :: "char \<Rightarrow> bool" where
  "is_alpha c = (c \<in> set ''abcdefghijklmnopqrstuvwxyzABCDEFGHIJKLMNOPQRSTUVWXYZ'')"

definition is_space :: "char \<Rightarrow> bool" where
  "is_space c = (c \<in> set [CHR '' '', CHR 0x09, CHR 0x0A, CHR 0x0B, CHR 0x0C, CHR 0x0D])"

definition to_lower :: "char \<Rightarrow> char" where
  "to_lower c =
     (case map_of (zip ''ABCDEFGHIJKLMNOPQRSTUVWXYZ'' ''abcdefghijklmnopqrstuvwxyz'') c of
        Some l \<Rightarrow> l | None \<Rightarrow> c)"

definition digit_val :: "char \<Rightarrow> int" where
  "digit_val c = (case map_of (zip ''0123456789'' [0, 1, 2, 3, 4, 5, 6, 7, 8, 9]) c of
                    Some v \<Rightarrow> v | None \<Rightarrow> 0)"

text \<open>\<open>int(s)\<close> on the strings that reach it here: decimal digits, possibly after blanks
  (which \<open>int\<close> strips).\<close>

definition int_of_string :: "string \<Rightarrow> int" where
  "int_of_string s = foldl (\<lambda>a c. 10 * a + digit_val c) 0 (filter is_digit s)"

text \<open>\<open>s.replace(old, new)\<close>: every occurrence of \<open>old\<close>, found from left to right without
  overlap, is replaced. With an empty \<open>old\<close> Python inserts \<open>new\<close> before every character
  and at the end.\<close>

function replace_str :: "string \<Rightarrow> string \<Rightarrow> string \<Rightarrow> string" where
  "replace_str old new s =
     (if old = [] then concat (map (\<lambda>c. new @ [c]) s) @ new
      else if s = [] then []
      else if prefix old s then new @ replace_str old new (drop (length old) s)
      else hd s # replace_str old new (tl s))"
  by pat_completeness auto
termination
  by (relation "measure (\<lambda>(old, new, s). length s)") auto

declare replace_str.simps [simp del]

text \<open>The slice \<open>s[i:j]\<close> for \<open>0 \<le> i \<le> j\<close>.\<close>

definition slice :: "string \<Rightarrow> nat \<Rightarrow> nat \<Rightarrow> string" where
  "slice s i j = take (j - i) (drop i s)"

section \<open>The format catalog\<close>

text \<open>The backslash of the regular expressions is written \<open>CHR 0x5C\<close>.\<close>

definition REGEX :: "(string \<times> string) list" where
  "REGEX =
    [(''%Y'', ''(?P<year>'' @ [CHR 0x5C] @ ''d{4})''),
     (''%m'', ''(?P<month>'' @ [CHR 0x5C] @ ''d{1,2})''),
     (''%d'', ''(?P<day>'' @ [CHR 0x5C] @ ''d{1,2})''),
     (''%H'', ''(?P<hour>'' @ [CHR 0x5C] @ ''d{1,2})''),
     (''%M'', ''(?P<minute>'' @ [CHR 0x5C] @ ''d{1,2})''),
     (''%S'', ''(?P<second>'' @ [CHR 0x5C] @ ''d{1,2})''),
     (''%f'', ''(?P<microsecond>'' @ [CHR 0x5C] @ ''d+)''),
     (''%b'', ''(?P<month_str>[a-zA-Z]+)'')]"

definition TIME_FORMAT_LIST :: "string list" where
  "TIME_FORMAT_LIST =
    [''%Y-%m-%dT%H:%M:%S.%f'',
     ''%Y/%m/%dT%H:%M:%S.%f'',
     ''%Y-%m-%dT%H:%M:%S.%fZ'',
     ''%Y-%m-%dT%H:%M:%S'',
     ''%Y/%m/%dT%H:%M:%S'',
     ''%Y%m%dT%H%M%S.%f'',
     ''%Y%m%dT%H%M%S'',
     ''%Y/%m/%d %H:%M:%S'',
     ''%Y/%m/%d %H:%M'',
     ''%Y/%m/%d %H:%M:%S.%f'',
     ''%Y-%m-%d %H:%M:%S.%f'',
     ''%Y-%m-%d %H:%M:%S'',
     ''%Y-%m-%d %H:%M'',
     ''%Y-%b-%d %H:%M:%S'',
     ''%Y-%b-%d %H:%M'',
     ''%Y-%b-%d'',
     ''%Y-%m-%d'',
     ''%Y/%m/%d'',
     ''%d-%b-%Y'',
     ''%Y%m%d_%H%M%S'']"

text \<open>
  The loop \<open>for key, value in REGEX.iteritems(): format = format.replace(key, value)\<close>.
  The dictionary is visited here in the order of its literal; no value contains a
  percent sign, so no replacement creates or destroys an occurrence of another key.
\<close>

definition regex_source :: "string \<Rightarrow> string" where
  "regex_source format = foldl (\<lambda>f (key, val). replace_str key val f) format REGEX"

section \<open>Regular expressions\<close>

text \<open>
  The fragment of the syntax of \<open>re\<close> that the values of \<open>REGEX\<close> and the characters of
  the catalog need: a named group around a character class with a greedy quantifier,
  the dot, and ordinary characters. A pattern string is read as \<open>re\<close> reads
  it: a dot that is not escaped is the wildcard; any other metacharacter outside a
  group puts the pattern outside the fragment. \<open>re_parse\<close> reads the pattern;
  \<open>re_compile\<close> is the compiled pattern, which exists only when no group name occurs
  twice: \<open>re\<close> raises its \<open>error\<close> ("redefinition of group name") otherwise.
  \<open>compile_error\<close> is what stands for a pattern without a compiled form.
\<close>

datatype cclass = Digits | Letters

datatype ritem =
    Lit char
  | AnyChar
  | Group string cclass nat "nat option"

definition metachars :: string where
  "metachars = ''.^$*+?{}[]|()'' @ [CHR 0x5C]"

definition parse_class :: "string \<Rightarrow> (cclass \<times> string) option" where
  "parse_class s =
     (if prefix [CHR 0x5C, CHR ''d''] s then Some (Digits, drop 2 s)
      else if prefix ''[a-zA-Z]'' s then Some (Letters, drop 8 s)
      else None)"

definition parse_quant :: "string \<Rightarrow> (nat \<times> nat option \<times> string) option" where
  "parse_quant s =
     (if prefix ''{4}'' s then Some (4, Some 4, drop 3 s)
      else if prefix ''{1,2}'' s then Some (1, Some 2, drop 5 s)
      else if prefix ''+'' s then Some (1, None, drop 1 s)
      else None)"

text \<open>The text after \<open>(?P<\<close>: a name, \<open>>\<close>, a class, a quantifier and the closing
  parenthesis.\<close>

definition parse_group :: "string \<Rightarrow> (ritem \<times> string) option" where
  "parse_group s =
     (let name = takeWhile (\<lambda>c. c \<noteq> CHR ''>'') s;
          s1 = drop (length name) s
      in if name = [] \<or> \<not> prefix ''>'' s1 then None
         else case parse_class (tl s1) of
                None \<Rightarrow> None
              | Some (cl, s2) \<Rightarrow>
                  (case parse_quant s2 of
                     None \<Rightarrow> None
                   | Some (lo, hi, s3) \<Rightarrow>
                       if prefix '')'' s3 then Some (Group name cl lo hi, tl s3) else None))"

lemma parse_group_shorter: "parse_group s = Some (g, r) \<Longrightarrow> length r < Suc (length s)"
  by (auto simp: parse_group_def parse_class_def parse_quant_def Let_def
      split: if_splits option.splits)

function re_parse :: "string \<Rightarrow> ritem list option" where
  "re_parse s =
     (if s = [] then Some []
      else if prefix ''(?P<'' s then
        (case parse_group (drop 4 s) of
           None \<Rightarrow> None
         | Some (g, r) \<Rightarrow> map_option ((#) g) (re_parse r))
      else if hd s = CHR ''.'' then map_option ((#) AnyChar) (re_parse (tl s))
      else if hd s \<in> set metachars then None
      else map_option ((#) (Lit (hd s))) (re_parse (tl s)))"
  by pat_completeness auto
termination
proof (relation "measure length", goal_cases)
  case 1
  show ?case by simp
next
  case (2 s x g r)
  from 2(3,4) have "length r < Suc (length (drop 4 s))"
    using parse_group_shorter [of "drop 4 s" g r] by simp
  moreover from 2(2) have "4 \<le> length s"
    by (auto simp: prefix_def)
  ultimately show ?case by simp
next
  case (3 s)
  then show ?case by (cases s) auto
next
  case (4 s)
  then show ?case by (cases s) auto
qed

declare re_parse.simps [simp del]

definition group_names :: "ritem list \<Rightarrow> string list" where
  "group_names rx = concat (map (\<lambda>it. case it of Group g cl lo hi \<Rightarrow> [g] | _ \<Rightarrow> []) rx)"

definition re_compile :: "string \<Rightarrow> ritem list option" where
  "re_compile s =
     (case re_parse s of
        None \<Rightarrow> None
      | Some rx \<Rightarrow> if distinct (group_names rx) then Some rx else None)"

definition compile_error :: "string \<Rightarrow> error" where
  "compile_error s = (case re_parse s of None \<Rightarrow> Regex_Unsupported | Some rx \<Rightarrow> ReError)"

definition in_class :: "cclass \<Rightarrow> char \<Rightarrow> bool" where
  "in_class cl c = (case cl of Digits \<Rightarrow> is_digit c | Letters \<Rightarrow> is_alpha c)"

text \<open>
  What one item may consume at the front of \<open>s\<close>: the lengths in the order in which the
  backtracking matcher tries them. A greedy quantifier tries the longest run first. The
  dot does not match a newline.
\<close>

fun cands :: "ritem \<Rightarrow> string \<Rightarrow> nat list" where
  "cands (Lit c) s = (case s of [] \<Rightarrow> [] | x # _ \<Rightarrow> if x = c then [1] else [])"
| "cands AnyChar s = (case s of [] \<Rightarrow> [] | x # _ \<Rightarrow> if x \<noteq> CHR 0x0A then [1] else [])"
| "cands (Group name cl lo hi) s =
     (let k = length (takeWhile (in_class cl) s);
          top = (case hi of None \<Rightarrow> k | Some h \<Rightarrow> min h k)
      in rev [lo..<Suc top])"

text \<open>
  A sequence of items matched at position \<open>pos\<close>, where \<open>s\<close> is the text from \<open>pos\<close> on.
  The result lists every way to match, in the order of the backtracking search, each with
  the span of every item and the end of the match; the search of \<open>re\<close> returns the first.
\<close>

fun all_matches ::
  "('i \<Rightarrow> string \<Rightarrow> nat list) \<Rightarrow> 'i list \<Rightarrow> nat \<Rightarrow> string \<Rightarrow> ((nat \<times> nat) list \<times> nat) list"
where
  "all_matches cs [] pos s = [([], pos)]"
| "all_matches cs (it # its) pos s =
     concat (map (\<lambda>n. map (\<lambda>(sp, e). ((pos, pos + n) # sp, e))
                         (all_matches cs its (pos + n) (drop n s)))
                 (cs it s))"

definition first_match ::
  "('i \<Rightarrow> string \<Rightarrow> nat list) \<Rightarrow> 'i list \<Rightarrow> nat \<Rightarrow> string \<Rightarrow> ((nat \<times> nat) list \<times> nat) option"
where
  "first_match cs its pos s = (case all_matches cs its pos s of [] \<Rightarrow> None | m # _ \<Rightarrow> Some m)"

text \<open>A match object: the compiled items, the span of each and the span of the whole.\<close>

record rmatch =
  m_string :: string
  m_items :: "ritem list"
  m_spans :: "(nat \<times> nat) list"
  m_start :: nat
  m_end :: nat

text \<open>\<open>re.match\<close>: a match at the start of the string (not necessarily to its end).\<close>

definition re_match :: "ritem list \<Rightarrow> string \<Rightarrow> rmatch option" where
  "re_match rx s =
     (case first_match cands rx 0 s of
        None \<Rightarrow> None
      | Some (sp, e) \<Rightarrow>
          Some \<lparr>m_string = s, m_items = rx, m_spans = sp, m_start = 0, m_end = e\<rparr>)"

text \<open>\<open>match.span(name)\<close>; \<open>None\<close> stands for the \<open>IndexError\<close> raised when the pattern has
  no group of that name.\<close>

fun span_of :: "string \<Rightarrow> ritem list \<Rightarrow> (nat \<times> nat) list \<Rightarrow> (nat \<times> nat) option" where
  "span_of name (Group g cl lo hi # its) (sp # sps) =
     (if g = name then Some sp else span_of name its sps)"
| "span_of name (it # its) (sp # sps) = span_of name its sps"
| "span_of name its sps = None"

definition m_span :: "rmatch \<Rightarrow> string \<Rightarrow> (nat \<times> nat) option" where
  "m_span m name = span_of name (m_items m) (m_spans m)"

text \<open>\<open>match.group(name)\<close>: the text of the span.\<close>

definition m_group :: "rmatch \<Rightarrow> string \<Rightarrow> string option" where
  "m_group m name = map_option (\<lambda>(i, j). slice (m_string m) i j) (m_span m name)"




section \<open>\<open>datetime.strptime\<close>\<close>

text \<open>
  \<open>strptime\<close> turns its format into a regular expression of its own: every
  metacharacter of the format is escaped, so a literal character stands for itself; a
  run of blanks stands for one or more blanks; a directive stands for a group of
  alternatives. The expression is compiled with \<open>IGNORECASE\<close> and matched at the start
  of the data, and the match has to end where the data ends. The directives modelled
  are those of the keys of \<open>REGEX\<close>, the only ones the catalog uses; the month names are
  those of the C locale.
\<close>

datatype sitem = SLit char | SSpace | SDir char

function strptime_items :: "string \<Rightarrow> sitem list option" where
  "strptime_items [] = Some []"
| "strptime_items (c # cs) =
     (if c = CHR ''%'' then
        (case cs of
           [] \<Rightarrow> None
         | d # ds \<Rightarrow> if d \<in> set ''YmdHMSfb''
                     then map_option ((#) (SDir d)) (strptime_items ds) else None)
      else if is_space c then map_option ((#) SSpace) (strptime_items (dropWhile is_space cs))
      else map_option ((#) (SLit c)) (strptime_items cs))"
  by pat_completeness auto
termination
  by (relation "measure length") (auto simp: le_imp_less_Suc length_dropWhile_le)

definition month_abbrs :: "string list" where
  "month_abbrs = [''jan'', ''feb'', ''mar'', ''apr'', ''may'', ''jun'',
                  ''jul'', ''aug'', ''sep'', ''oct'', ''nov'', ''dec'']"

text \<open>An alternative of a directive is a sequence of character sets. The alternatives
  are listed in the order of the library's expression, which is the order of the search:
  \<open>%m\<close> is \<open>1[0-2]|0[1-9]|[1-9]\<close>, \<open>%d\<close> is \<open>3[0-1]|[1-2]\d|0[1-9]|[1-9]| [1-9]\<close>,
  \<open>%H\<close> is \<open>2[0-3]|[0-1]\d|\d\<close>, \<open>%M\<close> is \<open>[0-5]\d|\d\<close>, \<open>%S\<close> is \<open>6[0-1]|[0-5]\d|\d\<close>,
  \<open>%Y\<close> is \<open>\d\d\d\d\<close>, \<open>%f\<close> is \<open>[0-9]{1,6}\<close> and \<open>%b\<close> the month names.\<close>

definition dir_alts :: "char \<Rightarrow> string list list" where
  "dir_alts d =
     (let dg = ''0123456789''; nz = ''123456789'' in
      if d = CHR ''Y'' then [[dg, dg, dg, dg]]
      else if d = CHR ''m'' then [[''1'', ''012''], [''0'', nz], [nz]]
      else if d = CHR ''d'' then [[''3'', ''01''], [''12'', dg], [''0'', nz], [nz], ['' '', nz]]
      else if d = CHR ''H'' then [[''2'', ''0123''], [''01'', dg], [dg]]
      else if d = CHR ''M'' then [[''012345'', dg], [dg]]
      else if d = CHR ''S'' then [[''6'', ''01''], [''012345'', dg], [dg]]
      else if d = CHR ''f'' then map (\<lambda>n. replicate n dg) [6, 5, 4, 3, 2, 1]
      else if d = CHR ''b'' then map (map (\<lambda>c. [c])) month_abbrs
      else [])"

fun alt_matches :: "string list \<Rightarrow> string \<Rightarrow> bool" where
  "alt_matches [] s = True"
| "alt_matches (cs # alt) [] = False"
| "alt_matches (cs # alt) (x # s) = (to_lower x \<in> set cs \<and> alt_matches alt s)"

fun scands :: "sitem \<Rightarrow> string \<Rightarrow> nat list" where
  "scands (SLit c) s =
     (case s of [] \<Rightarrow> [] | x # _ \<Rightarrow> if to_lower x = to_lower c then [1] else [])"
| "scands SSpace s = rev [1..<Suc (length (takeWhile is_space s))]"
| "scands (SDir d) s = map length (filter (\<lambda>alt. alt_matches alt s) (dir_alts d))"

primrec index_of :: "'a \<Rightarrow> 'a list \<Rightarrow> nat" where
  "index_of x [] = 0"
| "index_of x (y # ys) = (if x = y then 0 else Suc (index_of x ys))"

text \<open>The value a directive gives to its field. \<open>%f\<close> pads the digits with zeros on the
  right to six places.\<close>

definition set_field :: "char \<Rightarrow> string \<Rightarrow> datetime \<Rightarrow> datetime" where
  "set_field d txt dt =
     (if d = CHR ''Y'' then dt\<lparr>year := int_of_string txt\<rparr>
      else if d = CHR ''m'' then dt\<lparr>month := int_of_string txt\<rparr>
      else if d = CHR ''b'' then dt\<lparr>month := int (index_of (map to_lower txt) month_abbrs) + 1\<rparr>
      else if d = CHR ''d'' then dt\<lparr>day := int_of_string txt\<rparr>
      else if d = CHR ''H'' then dt\<lparr>hour := int_of_string txt\<rparr>
      else if d = CHR ''M'' then dt\<lparr>minute := int_of_string txt\<rparr>
      else if d = CHR ''S'' then dt\<lparr>second := int_of_string txt\<rparr>
      else if d = CHR ''f'' then
        dt\<lparr>microsecond := int_of_string (txt @ replicate (6 - length txt) (CHR ''0''))\<rparr>
      else dt)"

fun set_fields :: "string \<Rightarrow> sitem list \<Rightarrow> (nat \<times> nat) list \<Rightarrow> datetime \<Rightarrow> datetime" where
  "set_fields data (SDir d # its) ((i, j) # sps) dt =
     set_fields data its sps (set_field d (slice data i j) dt)"
| "set_fields data (it # its) (sp # sps) dt = set_fields data its sps dt"
| "set_fields data its sps dt = dt"

definition strptime_defaults :: datetime where
  "strptime_defaults =
     \<lparr>year = 1900, month = 1, day = 1, hour = 0, minute = 0, second = 0, microsecond = 0\<rparr>"

definition strptime :: "string \<Rightarrow> string \<Rightarrow> error + datetime" where
  "strptime data format =
     (case strptime_items format of
        None \<Rightarrow> Inl (ValueError Bad_Directive)
      | Some its \<Rightarrow>
          (case first_match scands its 0 data of
             None \<Rightarrow> Inl (ValueError Time_Data_Mismatch)
           | Some (sps, e) \<Rightarrow>
               if e \<noteq> length data then Inl (ValueError Unconverted_Data)
               else let f = set_fields data its sps strptime_defaults
                    in mk_datetime (year f) (month f) (day f) (hour f) (minute f) (second f)
                         (microsecond f)))"

section \<open>The functions of \<open>sunpy.time\<close>\<close>

definition group_or_none :: "rmatch \<Rightarrow> string \<Rightarrow> (string \<Rightarrow> 'a) \<Rightarrow> 'a option" where
  "group_or_none m grp f = (case m_group m grp of None \<Rightarrow> None | Some ret \<Rightarrow> Some (f ret))"

definition n_or_eq :: "'a option \<Rightarrow> 'a \<Rightarrow> bool" where
  "n_or_eq a b = (a = None \<or> a = Some b)"

definition timedelta_days :: "int \<Rightarrow> timedelta" where
  "timedelta_days n = \<lparr>days = n, seconds = 0, microseconds = 0\<rparr>"

text \<open>
  \<open>_regex_parse_time(inp, format)\<close>. The result \<open>Inr None\<close> is the pair \<open>(None, None)\<close>.
  \<open>re.match\<close> compiles the pattern and then raises a \<open>TypeError\<close> when \<open>inp\<close> is neither
  a string nor a buffer; \<open>buffer_of\<close> is the text that it matches. \<open>match.group("hour")\<close>
  raises the \<open>IndexError\<close> that the function catches exactly when the pattern has no
  group of that name; the group's text is the slice of its span. For a \<open>bytearray\<close> the
  slices are of that type; they compare with \<open>"24"\<close> and convert with \<open>int\<close> byte for
  byte as a string does, and the string rewritten with \<open>"00"\<close> is again a \<open>bytearray\<close>
  (\<open>same_kind\<close>).
\<close>

definition buffer_of :: "pyval \<Rightarrow> string option" where
  "buffer_of v = (case v of PStr s \<Rightarrow> Some s | PByteArray s \<Rightarrow> Some s | _ \<Rightarrow> None)"

definition same_kind :: "pyval \<Rightarrow> string \<Rightarrow> pyval" where
  "same_kind v s = (case v of PByteArray b \<Rightarrow> PByteArray s | _ \<Rightarrow> PStr s)"

definition regex_parse_time :: "pyval \<Rightarrow> string \<Rightarrow> error + (pyval \<times> timedelta) option" where
  "regex_parse_time inp format =
     (case re_compile (regex_source format) of
        None \<Rightarrow> Inl (compile_error (regex_source format))
      | Some rx \<Rightarrow>
          (case buffer_of inp of
             None \<Rightarrow> Inl TypeError
           | Some s \<Rightarrow>
               (case re_match rx s of
                  None \<Rightarrow> Inr None
                | Some m \<Rightarrow>
                    (case m_span m ''hour'' of
                       None \<Rightarrow> Inr (Some (inp, timedelta_days 0))
                     | Some (from, to) \<Rightarrow>
                         if slice s from to = ''24'' then
                           (if \<not> list_all (\<lambda>g. n_or_eq (group_or_none m g int_of_string) 0)
                                   [''minute'', ''second'', ''microsecond'']
                            then Inl (ValueError Malformed_Time)
                            else Inr (Some (same_kind inp (take from s @ ''00'' @ drop to s),
                                            timedelta_days 1)))
                         else Inr (Some (inp, timedelta_days 0))))))"






text \<open>
  The string branch of \<open>parse_time\<close> is a loop over the formats. \<open>try_format\<close> is
  its body: a \<open>TypeError\<close> of \<open>_regex_parse_time\<close> leaves the loop (\<open>break\<close>), the result
  \<open>(None, None)\<close> goes on to the next format (\<open>continue\<close>), a \<open>ValueError\<close> raised anywhere
  in the body is passed over (\<open>pass\<close>, which also goes on to the next format), any other
  exception reaches the caller. \<open>datetime.strptime\<close> takes a string only: given what
  \<open>_regex_parse_time\<close> returns for a \<open>bytearray\<close>, it raises a \<open>TypeError\<close>, outside the
  inner \<open>try\<close>. After the loop comes the \<open>raise ValueError\<close> with the message "is not a
  valid time string".
\<close>

definition strptime_arg :: "pyval \<Rightarrow> string \<Rightarrow> error + datetime" where
  "strptime_arg v format = (case v of PStr s \<Rightarrow> strptime s format | _ \<Rightarrow> Inl TypeError)"

datatype trial = Continue | Break | Return datetime | Raise error

definition try_format :: "pyval \<Rightarrow> string \<Rightarrow> trial" where
  "try_format time_string time_format =
     (case regex_parse_time time_string time_format of
        Inl TypeError \<Rightarrow> Break
      | Inl (ValueError e) \<Rightarrow> Continue
      | Inl e \<Rightarrow> Raise e
      | Inr None \<Rightarrow> Continue
      | Inr (Some (ts, time_delta)) \<Rightarrow>
          (case strptime_arg ts time_format of
             Inl (ValueError e) \<Rightarrow> Continue
           | Inl e \<Rightarrow> Raise e
           | Inr dt \<Rightarrow>
               (case datetime_add dt time_delta of
                  Inl (ValueError e) \<Rightarrow> Continue
                | Inl e \<Rightarrow> Raise e
                | Inr r \<Rightarrow> Return r)))"

fun parse_formats :: "string list \<Rightarrow> pyval \<Rightarrow> error + datetime" where
  "parse_formats [] time_string = Inl (ValueError Not_A_Valid_Time_String)"
| "parse_formats (time_format # fs) time_string =
     (case try_format time_string time_format of
        Continue \<Rightarrow> parse_formats fs time_string
      | Break \<Rightarrow> Inl (ValueError Not_A_Valid_Time_String)
      | Return r \<Rightarrow> Inr r
      | Raise e \<Rightarrow> Inl e)"

definition epoch :: datetime where
  "epoch = \<lparr>year = 1979, month = 1, day = 1, hour = 0, minute = 0, second = 0,
            microsecond = 0\<rparr>"

text \<open>\<open>parse_time\<close>; \<open>now\<close> is what \<open>datetime.now()\<close> returns at the call. The test
  \<open>isinstance(time_string, int) or isinstance(time_string, float)\<close> holds of an \<open>int\<close>
  and of a \<open>float\<close>, not of a \<open>long\<close>, which goes to the loop over the formats with the
  strings and all other objects.\<close>

definition parse_time :: "datetime \<Rightarrow> pyval \<Rightarrow> error + datetime" where
  "parse_time now time_string =
     (case time_string of
        PNone \<Rightarrow> Inr now
      | PDatetime dt \<Rightarrow> Inr dt
      | PTuple t \<Rightarrow> datetime_of_tuple t
      | PInt n \<Rightarrow>
          (case mk_timedelta 0 n of
             Inl e \<Rightarrow> Inl e
           | Inr td \<Rightarrow> datetime_add epoch td)
      | PFloat x \<Rightarrow>
          (case mk_timedelta_float x of
             Inl e \<Rightarrow> Inl e
           | Inr td \<Rightarrow> datetime_add epoch td)
      | _ \<Rightarrow> parse_formats TIME_FORMAT_LIST time_string)"

text \<open>\<open>is_time\<close>: the test \<open>if None\<close> never holds; only a \<open>ValueError\<close> of \<open>parse_time\<close>
  is caught.\<close>

definition is_time :: "datetime \<Rightarrow> pyval \<Rightarrow> error + bool" where
  "is_time now t =
     (case t of
        PDatetime dt \<Rightarrow> Inr True
      | _ \<Rightarrow>
          (case parse_time now t of
             Inl (ValueError e) \<Rightarrow> Inr False
           | Inl e \<Rightarrow> Inl e
           | Inr dt \<Rightarrow> Inr True))"

section \<open>Format patterns as the specification describes them\<close>

text \<open>
  The specification reads a format pattern as a sequence of placeholder tokens and
  literal characters, and describes the compiled expression token by token.
  \<open>format_tokens\<close> is that reading. \<open>escaped_item\<close> is the item the specification
  gives to a token (a literal character stands for itself); \<open>verbatim_item\<close> differs in
  one place: a literal dot is the wildcard.
\<close>

datatype ftoken = Placeholder string | Literal char

fun format_tokens :: "string \<Rightarrow> ftoken list" where
  "format_tokens (c # d # s) =
     (if [c, d] \<in> set (map fst REGEX) then Placeholder [c, d] # format_tokens s
      else Literal c # format_tokens (d # s))"
| "format_tokens [c] = [Literal c]"
| "format_tokens [] = []"

definition placeholder_item :: "string \<Rightarrow> ritem" where
  "placeholder_item key =
     (if key = ''%Y'' then Group ''year'' Digits 4 (Some 4)
      else if key = ''%m'' then Group ''month'' Digits 1 (Some 2)
      else if key = ''%d'' then Group ''day'' Digits 1 (Some 2)
      else if key = ''%H'' then Group ''hour'' Digits 1 (Some 2)
      else if key = ''%M'' then Group ''minute'' Digits 1 (Some 2)
      else if key = ''%S'' then Group ''second'' Digits 1 (Some 2)
      else if key = ''%f'' then Group ''microsecond'' Digits 1 None
      else Group ''month_str'' Letters 1 None)"

definition escaped_item :: "ftoken \<Rightarrow> ritem" where
  "escaped_item t = (case t of Placeholder key \<Rightarrow> placeholder_item key | Literal c \<Rightarrow> Lit c)"

definition verbatim_item :: "ftoken \<Rightarrow> ritem" where
  "verbatim_item t =
     (case t of
        Placeholder key \<Rightarrow> placeholder_item key
      | Literal c \<Rightarrow> if c = CHR ''.'' then AnyChar else Lit c)"

text \<open>The formats whose literal characters are ordinary characters or dots: no percent
  sign outside a placeholder, no other metacharacter.\<close>

definition plain_format :: "string \<Rightarrow> bool" where
  "plain_format f =
     list_all (\<lambda>t. case t of Placeholder key \<Rightarrow> True
                     | Literal c \<Rightarrow> c \<noteq> CHR ''%'' \<and> (c = CHR ''.'' \<or> c \<notin> set metachars))
              (format_tokens f)"

text \<open>
  A date-time whose fields are in their calendar ranges, which is what the \<open>datetime\<close>
  constructor accepts, and the same time of day on the following calendar day.
\<close>

definition valid_datetime :: "datetime \<Rightarrow> bool" where
  "valid_datetime dt =
     (1 \<le> year dt \<and> year dt \<le> 9999 \<and> 1 \<le> month dt \<and> month dt \<le> 12 \<and>
      1 \<le> day dt \<and> day dt \<le> days_in_month (year dt) (month dt) \<and>
      0 \<le> hour dt \<and> hour dt \<le> 23 \<and> 0 \<le> minute dt \<and> minute dt \<le> 59 \<and>
      0 \<le> second dt \<and> second dt \<le> 59 \<and> 0 \<le> microsecond dt \<and> microsecond dt \<le> 999999)"


text \<open>
  Writing a date-time under a format, as the round-trip property needs it: every
  placeholder is replaced by its field in the layout that \<open>strftime\<close> gives it (the year
  on four digits, the microsecond on six, the other numbers on two, all padded with
  zeros, and the month name abbreviated as in the C locale); every other character is
  copied. A date-time is consistent with a format when every field that the format does
  not write has the value that \<open>strptime\<close> gives to a missing field.
\<close>

definition digit_char :: "nat \<Rightarrow> char" where
  "digit_char n = ''0123456789'' ! (n mod 10)"

definition zero_pad :: "nat \<Rightarrow> int \<Rightarrow> string" where
  "zero_pad w v = map (\<lambda>i. digit_char (nat v div 10 ^ i)) (rev [0..<w])"

definition month_names :: "string list" where
  "month_names = [''Jan'', ''Feb'', ''Mar'', ''Apr'', ''May'', ''Jun'',
                  ''Jul'', ''Aug'', ''Sep'', ''Oct'', ''Nov'', ''Dec'']"

definition directive_text :: "char \<Rightarrow> datetime \<Rightarrow> string" where
  "directive_text d dt =
     (if d = CHR ''Y'' then zero_pad 4 (year dt)
      else if d = CHR ''m'' then zero_pad 2 (month dt)
      else if d = CHR ''b'' then month_names ! nat (month dt - 1)
      else if d = CHR ''d'' then zero_pad 2 (day dt)
      else if d = CHR ''H'' then zero_pad 2 (hour dt)
      else if d = CHR ''M'' then zero_pad 2 (minute dt)
      else if d = CHR ''S'' then zero_pad 2 (second dt)
      else if d = CHR ''f'' then zero_pad 6 (microsecond dt)
      else [CHR ''%'', d])"

fun format_time :: "datetime \<Rightarrow> string \<Rightarrow> string" where
  "format_time dt (c # d # s) =
     (if c = CHR ''%'' then directive_text d dt @ format_time dt s
      else c # format_time dt (d # s))"
| "format_time dt [c] = [c]"
| "format_time dt [] = []"

definition has_directive :: "string \<Rightarrow> char \<Rightarrow> bool" where
  "has_directive f d = (Placeholder [CHR ''%'', d] \<in> set (format_tokens f))"

definition consistent_with :: "string \<Rightarrow> datetime \<Rightarrow> bool" where
  "consistent_with f dt =
     ((has_directive f (CHR ''H'') \<or> hour dt = 0) \<and>
      (has_directive f (CHR ''M'') \<or> minute dt = 0) \<and>
      (has_directive f (CHR ''S'') \<or> second dt = 0) \<and>
      (has_directive f (CHR ''f'') \<or> microsecond dt = 0))"

text \<open>
  The epoch 1979-01-01 00:00:00 plus a whole number \<open>u\<close> of microseconds, as the
  calendar has it: the date is the one \<open>u div 86400000000\<close> days after the first of
  January 1979, the time of day is what remains. A date outside the years 1 to 9999 is an
  \<open>OverflowError\<close>.
\<close>

definition after_epoch :: "int \<Rightarrow> error + datetime" where
  "after_epoch u =
     (let k = u div 86400000000; t = u div 1000000 mod 86400;
          ordinal = ymd_to_ord 1979 1 1 + k
      in if ordinal < 1 \<or> ordinal > MAXORDINAL then Inl OverflowError
         else case ord_to_ymd ordinal of
                (y, m, d) \<Rightarrow>
                  Inr \<lparr>year = y, month = m, day = d, hour = t div 3600,
                       minute = t div 60 mod 60, second = t mod 60,
                       microsecond = u mod 1000000\<rparr>)"

text \<open>
  \<open>_regex_parse_time\<close> returns a text for the format, which the loop of \<open>parse_time\<close>
  then hands to \<open>datetime.strptime\<close>: the expression of the format matches the input at
  its start, and the hour is not a 24 with a minute, second or microsecond that is not
  zero.
\<close>

definition reaches_strptime :: "pyval \<Rightarrow> string \<Rightarrow> bool" where
  "reaches_strptime v f = (case regex_parse_time v f of Inr (Some r) \<Rightarrow> True | _ \<Rightarrow> False)"

section \<open>Compiling a format\<close>

text \<open>The replacements and the compilation, token by token.\<close>

lemma replace_str_Nil: "old \<noteq> [] \<Longrightarrow> replace_str old new [] = []"
  by (simp add: replace_str.simps)

lemma replace_str_Cons: "old \<noteq> [] \<Longrightarrow> replace_str old new (c # s) =
  (if prefix old (c # s) then new @ replace_str old new (drop (length old) (c # s))
   else c # replace_str old new s)"
  by (subst replace_str.simps) simp

lemma replace_key_other:
  "k \<noteq> c \<Longrightarrow>
   replace_str [CHR ''%'', k] new (CHR ''%'' # c # s) = CHR ''%'' # replace_str [CHR ''%'', k] new (c # s)"
  by (simp add: replace_str_Cons)

lemma replace_key_same:
  "replace_str [CHR ''%'', k] new (CHR ''%'' # k # s) = new @ replace_str [CHR ''%'', k] new s"
  by (simp add: replace_str_Cons)

lemma replace_key_lit:
  "c \<noteq> CHR ''%'' \<Longrightarrow>
   replace_str [CHR ''%'', k] new (c # s) = c # replace_str [CHR ''%'', k] new s"
  by (simp add: replace_str_Cons)

lemma replace_key_end:
  "replace_str [CHR ''%'', k] new [CHR ''%''] = [CHR ''%'']"
  by (simp add: replace_str_Cons replace_str_Nil)

lemma regex_source_Nil: "regex_source [] = []"
  by (simp add: regex_source_def REGEX_def replace_str_Nil)

lemma regex_source_lit: "c \<noteq> CHR ''%'' \<Longrightarrow> regex_source (c # s) = c # regex_source s"
  by (simp add: regex_source_def REGEX_def replace_key_lit)

lemma regex_source_key:
  "map_of REGEX [CHR ''%'', k] = Some v \<Longrightarrow> regex_source (CHR ''%'' # k # s) = v @ regex_source s"
  unfolding regex_source_def REGEX_def
  by (auto simp: replace_key_same replace_key_other replace_key_lit split: if_splits)

lemma regex_source_percent_end: "regex_source [CHR ''%''] = [CHR ''%'']"
  by (simp add: regex_source_def REGEX_def replace_key_end)


lemma re_parse_Nil: "re_parse [] = Some []"
  by (simp add: re_parse.simps)

lemma re_parse_dot: "re_parse (CHR ''.'' # s) = map_option ((#) AnyChar) (re_parse s)"
  by (subst re_parse.simps) simp

lemma re_parse_lit:
  "c \<notin> set metachars \<Longrightarrow> re_parse (c # s) = map_option ((#) (Lit c)) (re_parse s)"
  by (subst re_parse.simps) (auto simp: metachars_def)

lemma compile_key_Y:
  "re_parse (regex_source (CHR ''%'' # CHR ''Y'' # s)) =
   map_option ((#) (Group ''year'' Digits 4 (Some 4))) (re_parse (regex_source s))"
  by (subst regex_source_key [where v = "''(?P<year>'' @ [CHR 0x5C] @ ''d{4})''"], simp add: REGEX_def,
      subst re_parse.simps)
     (simp add: parse_group_def parse_class_def parse_quant_def)

lemma compile_key_m:
  "re_parse (regex_source (CHR ''%'' # CHR ''m'' # s)) =
   map_option ((#) (Group ''month'' Digits 1 (Some 2))) (re_parse (regex_source s))"
  by (subst regex_source_key [where v = "''(?P<month>'' @ [CHR 0x5C] @ ''d{1,2})''"], simp add: REGEX_def,
      subst re_parse.simps)
     (simp add: parse_group_def parse_class_def parse_quant_def)

lemma compile_key_d:
  "re_parse (regex_source (CHR ''%'' # CHR ''d'' # s)) =
   map_option ((#) (Group ''day'' Digits 1 (Some 2))) (re_parse (regex_source s))"
  by (subst regex_source_key [where v = "''(?P<day>'' @ [CHR 0x5C] @ ''d{1,2})''"], simp add: REGEX_def,
      subst re_parse.simps)
     (simp add: parse_group_def parse_class_def parse_quant_def)

lemma compile_key_H:
  "re_parse (regex_source (CHR ''%'' # CHR ''H'' # s)) =
   map_option ((#) (Group ''hour'' Digits 1 (Some 2))) (re_parse (regex_source s))"
  by (subst regex_source_key [where v = "''(?P<hour>'' @ [CHR 0x5C] @ ''d{1,2})''"], simp add: REGEX_def,
      subst re_parse.simps)
     (simp add: parse_group_def parse_class_def parse_quant_def)

lemma compile_key_M:
  "re_parse (regex_source (CHR ''%'' # CHR ''M'' # s)) =
   map_option ((#) (Group ''minute'' Digits 1 (Some 2))) (re_parse (regex_source s))"
  by (subst regex_source_key [where v = "''(?P<minute>'' @ [CHR 0x5C] @ ''d{1,2})''"], simp add: REGEX_def,
      subst re_parse.simps)
     (simp add: parse_group_def parse_class_def parse_quant_def)

lemma compile_key_S:
  "re_parse (regex_source (CHR ''%'' # CHR ''S'' # s)) =
   map_option ((#) (Group ''second'' Digits 1 (Some 2))) (re_parse (regex_source s))"
  by (subst regex_source_key [where v = "''(?P<second>'' @ [CHR 0x5C] @ ''d{1,2})''"], simp add: REGEX_def,
      subst re_parse.simps)
     (simp add: parse_group_def parse_class_def parse_quant_def)

lemma compile_key_f:
  "re_parse (regex_source (CHR ''%'' # CHR ''f'' # s)) =
   map_option ((#) (Group ''microsecond'' Digits 1 None)) (re_parse (regex_source s))"
  by (subst regex_source_key [where v = "''(?P<microsecond>'' @ [CHR 0x5C] @ ''d+)''"], simp add: REGEX_def,
      subst re_parse.simps)
     (simp add: parse_group_def parse_class_def parse_quant_def)

lemma compile_key_b:
  "re_parse (regex_source (CHR ''%'' # CHR ''b'' # s)) =
   map_option ((#) (Group ''month_str'' Letters 1 None)) (re_parse (regex_source s))"
  by (subst regex_source_key [where v = "''(?P<month_str>[a-zA-Z]+)''"], simp add: REGEX_def,
      subst re_parse.simps)
     (simp add: parse_group_def parse_class_def parse_quant_def)

lemma compile_key:
  "[c, d] \<in> set (map fst REGEX) \<Longrightarrow>
   re_parse (regex_source (c # d # s)) =
   map_option ((#) (placeholder_item [c, d])) (re_parse (regex_source s))"
  unfolding REGEX_def placeholder_item_def
  by (elim disjE conjE | simp only: list.map list.set fst_conv insert_iff empty_iff)+
     (simp_all add: compile_key_Y compile_key_m compile_key_d compile_key_H compile_key_M
        compile_key_S compile_key_f compile_key_b)

lemma re_parse_verbatim:
  "plain_format f \<Longrightarrow> re_parse (regex_source f) = Some (map verbatim_item (format_tokens f))"
proof (induction f rule: format_tokens.induct)
  case (1 c d s)
  show ?case
  proof (cases "[c, d] \<in> set (map fst REGEX)")
    case True
    from 1(3) True have "plain_format s"
      by (simp add: plain_format_def)
    with 1(1) True have "re_parse (regex_source s) = Some (map verbatim_item (format_tokens s))"
      by simp
    with True show ?thesis
      using compile_key [OF True, of s] by (simp add: verbatim_item_def)
  next
    case False
    with 1(3) have c: "c \<noteq> CHR ''%''" "c = CHR ''.'' \<or> c \<notin> set metachars"
      and "plain_format (d # s)"
      by (simp_all add: plain_format_def)
    with 1(2) False have "re_parse (regex_source (d # s)) = Some (map verbatim_item (format_tokens (d # s)))"
      by simp
    with False c show ?thesis
      by (auto simp: regex_source_lit re_parse_dot re_parse_lit verbatim_item_def)
  qed
next
  case (2 c)
  then have "c \<noteq> CHR ''%''" "c = CHR ''.'' \<or> c \<notin> set metachars"
    by (simp_all add: plain_format_def)
  then show ?case
    by (auto simp: regex_source_lit regex_source_Nil re_parse_dot re_parse_lit
        re_parse_Nil verbatim_item_def)
next
  case 3
  show ?case by (simp add: regex_source_Nil re_parse_Nil)
qed

lemma re_compile_verbatim:
  "plain_format f \<Longrightarrow> distinct (group_names (map verbatim_item (format_tokens f))) \<Longrightarrow>
   re_compile (regex_source f) = Some (map verbatim_item (format_tokens f))"
  by (simp add: re_compile_def re_parse_verbatim)

lemma catalog_plain: "list_all plain_format TIME_FORMAT_LIST"
  by (simp add: TIME_FORMAT_LIST_def plain_format_def REGEX_def metachars_def)

lemma catalog_groups:
  "list_all (\<lambda>f. distinct (group_names (map verbatim_item (format_tokens f)))) TIME_FORMAT_LIST"
  by (simp add: TIME_FORMAT_LIST_def REGEX_def group_names_def verbatim_item_def
      placeholder_item_def)

section \<open>The catalog, compiled\<close>

text \<open>The regular expression of every catalog format, and the items \<open>strptime\<close> reads it as.\<close>


lemma rx_0:
  "re_compile (regex_source ''%Y-%m-%dT%H:%M:%S.%f'') =
   Some [Group ''year'' Digits 4 (Some 4), Lit CHR ''-'', Group ''month'' Digits 1 (Some 2), Lit CHR ''-'', Group ''day'' Digits 1 (Some 2), Lit CHR ''T'', Group ''hour'' Digits 1 (Some 2), Lit CHR '':'', Group ''minute'' Digits 1 (Some 2), Lit CHR '':'', Group ''second'' Digits 1 (Some 2), AnyChar, Group ''microsecond'' Digits 1 None]"
  using re_compile_verbatim [of "''%Y-%m-%dT%H:%M:%S.%f''"]
  by (simp add: plain_format_def verbatim_item_def placeholder_item_def REGEX_def metachars_def
      group_names_def)

lemma sx_0:
  "strptime_items ''%Y-%m-%dT%H:%M:%S.%f'' =
   Some [SDir CHR ''Y'', SLit CHR ''-'', SDir CHR ''m'', SLit CHR ''-'', SDir CHR ''d'', SLit CHR ''T'', SDir CHR ''H'', SLit CHR '':'', SDir CHR ''M'', SLit CHR '':'', SDir CHR ''S'', SLit CHR ''.'', SDir CHR ''f'']"
  by (simp add: is_space_def)

lemma rx_1:
  "re_compile (regex_source ''%Y/%m/%dT%H:%M:%S.%f'') =
   Some [Group ''year'' Digits 4 (Some 4), Lit CHR ''/'', Group ''month'' Digits 1 (Some 2), Lit CHR ''/'', Group ''day'' Digits 1 (Some 2), Lit CHR ''T'', Group ''hour'' Digits 1 (Some 2), Lit CHR '':'', Group ''minute'' Digits 1 (Some 2), Lit CHR '':'', Group ''second'' Digits 1 (Some 2), AnyChar, Group ''microsecond'' Digits 1 None]"
  using re_compile_verbatim [of "''%Y/%m/%dT%H:%M:%S.%f''"]
  by (simp add: plain_format_def verbatim_item_def placeholder_item_def REGEX_def metachars_def
      group_names_def)

lemma sx_1:
  "strptime_items ''%Y/%m/%dT%H:%M:%S.%f'' =
   Some [SDir CHR ''Y'', SLit CHR ''/'', SDir CHR ''m'', SLit CHR ''/'', SDir CHR ''d'', SLit CHR ''T'', SDir CHR ''H'', SLit CHR '':'', SDir CHR ''M'', SLit CHR '':'', SDir CHR ''S'', SLit CHR ''.'', SDir CHR ''f'']"
  by (simp add: is_space_def)

lemma rx_2:
  "re_compile (regex_source ''%Y-%m-%dT%H:%M:%S.%fZ'') =
   Some [Group ''year'' Digits 4 (Some 4), Lit CHR ''-'', Group ''month'' Digits 1 (Some 2), Lit CHR ''-'', Group ''day'' Digits 1 (Some 2), Lit CHR ''T'', Group ''hour'' Digits 1 (Some 2), Lit CHR '':'', Group ''minute'' Digits 1 (Some 2), Lit CHR '':'', Group ''second'' Digits 1 (Some 2), AnyChar, Group ''microsecond'' Digits 1 None, Lit CHR ''Z'']"
  using re_compile_verbatim [of "''%Y-%m-%dT%H:%M:%S.%fZ''"]
  by (simp add: plain_format_def verbatim_item_def placeholder_item_def REGEX_def metachars_def
      group_names_def)

lemma sx_2:
  "strptime_items ''%Y-%m-%dT%H:%M:%S.%fZ'' =
   Some [SDir CHR ''Y'', SLit CHR ''-'', SDir CHR ''m'', SLit CHR ''-'', SDir CHR ''d'', SLit CHR ''T'', SDir CHR ''H'', SLit CHR '':'', SDir CHR ''M'', SLit CHR '':'', SDir CHR ''S'', SLit CHR ''.'', SDir CHR ''f'', SLit CHR ''Z'']"
  by (simp add: is_space_def)

lemma rx_3:
  "re_compile (regex_source ''%Y-%m-%dT%H:%M:%S'') =
   Some [Group ''year'' Digits 4 (Some 4), Lit CHR ''-'', Group ''month'' Digits 1 (Some 2), Lit CHR ''-'', Group ''day'' Digits 1 (Some 2), Lit CHR ''T'', Group ''hour'' Digits 1 (Some 2), Lit CHR '':'', Group ''minute'' Digits 1 (Some 2), Lit CHR '':'', Group ''second'' Digits 1 (Some 2)]"
  using re_compile_verbatim [of "''%Y-%m-%dT%H:%M:%S''"]
  by (simp add: plain_format_def verbatim_item_def placeholder_item_def REGEX_def metachars_def
      group_names_def)

lemma sx_3:
  "strptime_items ''%Y-%m-%dT%H:%M:%S'' =
   Some [SDir CHR ''Y'', SLit CHR ''-'', SDir CHR ''m'', SLit CHR ''-'', SDir CHR ''d'', SLit CHR ''T'', SDir CHR ''H'', SLit CHR '':'', SDir CHR ''M'', SLit CHR '':'', SDir CHR ''S'']"
  by (simp add: is_space_def)

lemma rx_4:
  "re_compile (regex_source ''%Y/%m/%dT%H:%M:%S'') =
   Some [Group ''year'' Digits 4 (Some 4), Lit CHR ''/'', Group ''month'' Digits 1 (Some 2), Lit CHR ''/'', Group ''day'' Digits 1 (Some 2), Lit CHR ''T'', Group ''hour'' Digits 1 (Some 2), Lit CHR '':'', Group ''minute'' Digits 1 (Some 2), Lit CHR '':'', Group ''second'' Digits 1 (Some 2)]"
  using re_compile_verbatim [of "''%Y/%m/%dT%H:%M:%S''"]
  by (simp add: plain_format_def verbatim_item_def placeholder_item_def REGEX_def metachars_def
      group_names_def)

lemma sx_4:
  "strptime_items ''%Y/%m/%dT%H:%M:%S'' =
   Some [SDir CHR ''Y'', SLit CHR ''/'', SDir CHR ''m'', SLit CHR ''/'', SDir CHR ''d'', SLit CHR ''T'', SDir CHR ''H'', SLit CHR '':'', SDir CHR ''M'', SLit CHR '':'', SDir CHR ''S'']"
  by (simp add: is_space_def)

lemma rx_5:
  "re_compile (regex_source ''%Y%m%dT%H%M%S.%f'') =
   Some [Group ''year'' Digits 4 (Some 4), Group ''month'' Digits 1 (Some 2), Group ''day'' Digits 1 (Some 2), Lit CHR ''T'', Group ''hour'' Digits 1 (Some 2), Group ''minute'' Digits 1 (Some 2), Group ''second'' Digits 1 (Some 2), AnyChar, Group ''microsecond'' Digits 1 None]"
  using re_compile_verbatim [of "''%Y%m%dT%H%M%S.%f''"]
  by (simp add: plain_format_def verbatim_item_def placeholder_item_def REGEX_def metachars_def
      group_names_def)

lemma sx_5:
  "strptime_items ''%Y%m%dT%H%M%S.%f'' =
   Some [SDir CHR ''Y'', SDir CHR ''m'', SDir CHR ''d'', SLit CHR ''T'', SDir CHR ''H'', SDir CHR ''M'', SDir CHR ''S'', SLit CHR ''.'', SDir CHR ''f'']"
  by (simp add: is_space_def)

lemma rx_6:
  "re_compile (regex_source ''%Y%m%dT%H%M%S'') =
   Some [Group ''year'' Digits 4 (Some 4), Group ''month'' Digits 1 (Some 2), Group ''day'' Digits 1 (Some 2), Lit CHR ''T'', Group ''hour'' Digits 1 (Some 2), Group ''minute'' Digits 1 (Some 2), Group ''second'' Digits 1 (Some 2)]"
  using re_compile_verbatim [of "''%Y%m%dT%H%M%S''"]
  by (simp add: plain_format_def verbatim_item_def placeholder_item_def REGEX_def metachars_def
      group_names_def)

lemma sx_6:
  "strptime_items ''%Y%m%dT%H%M%S'' =
   Some [SDir CHR ''Y'', SDir CHR ''m'', SDir CHR ''d'', SLit CHR ''T'', SDir CHR ''H'', SDir CHR ''M'', SDir CHR ''S'']"
  by (simp add: is_space_def)

lemma rx_7:
  "re_compile (regex_source ''%Y/%m/%d %H:%M:%S'') =
   Some [Group ''year'' Digits 4 (Some 4), Lit CHR ''/'', Group ''month'' Digits 1 (Some 2), Lit CHR ''/'', Group ''day'' Digits 1 (Some 2), Lit CHR '' '', Group ''hour'' Digits 1 (Some 2), Lit CHR '':'', Group ''minute'' Digits 1 (Some 2), Lit CHR '':'', Group ''second'' Digits 1 (Some 2)]"
  using re_compile_verbatim [of "''%Y/%m/%d %H:%M:%S''"]
  by (simp add: plain_format_def verbatim_item_def placeholder_item_def REGEX_def metachars_def
      group_names_def)

lemma sx_7:
  "strptime_items ''%Y/%m/%d %H:%M:%S'' =
   Some [SDir CHR ''Y'', SLit CHR ''/'', SDir CHR ''m'', SLit CHR ''/'', SDir CHR ''d'', SSpace, SDir CHR ''H'', SLit CHR '':'', SDir CHR ''M'', SLit CHR '':'', SDir CHR ''S'']"
  by (simp add: is_space_def)

lemma rx_8:
  "re_compile (regex_source ''%Y/%m/%d %H:%M'') =
   Some [Group ''year'' Digits 4 (Some 4), Lit CHR ''/'', Group ''month'' Digits 1 (Some 2), Lit CHR ''/'', Group ''day'' Digits 1 (Some 2), Lit CHR '' '', Group ''hour'' Digits 1 (Some 2), Lit CHR '':'', Group ''minute'' Digits 1 (Some 2)]"
  using re_compile_verbatim [of "''%Y/%m/%d %H:%M''"]
  by (simp add: plain_format_def verbatim_item_def placeholder_item_def REGEX_def metachars_def
      group_names_def)

lemma sx_8:
  "strptime_items ''%Y/%m/%d %H:%M'' =
   Some [SDir CHR ''Y'', SLit CHR ''/'', SDir CHR ''m'', SLit CHR ''/'', SDir CHR ''d'', SSpace, SDir CHR ''H'', SLit CHR '':'', SDir CHR ''M'']"
  by (simp add: is_space_def)

lemma rx_9:
  "re_compile (regex_source ''%Y/%m/%d %H:%M:%S.%f'') =
   Some [Group ''year'' Digits 4 (Some 4), Lit CHR ''/'', Group ''month'' Digits 1 (Some 2), Lit CHR ''/'', Group ''day'' Digits 1 (Some 2), Lit CHR '' '', Group ''hour'' Digits 1 (Some 2), Lit CHR '':'', Group ''minute'' Digits 1 (Some 2), Lit CHR '':'', Group ''second'' Digits 1 (Some 2), AnyChar, Group ''microsecond'' Digits 1 None]"
  using re_compile_verbatim [of "''%Y/%m/%d %H:%M:%S.%f''"]
  by (simp add: plain_format_def verbatim_item_def placeholder_item_def REGEX_def metachars_def
      group_names_def)

lemma sx_9:
  "strptime_items ''%Y/%m/%d %H:%M:%S.%f'' =
   Some [SDir CHR ''Y'', SLit CHR ''/'', SDir CHR ''m'', SLit CHR ''/'', SDir CHR ''d'', SSpace, SDir CHR ''H'', SLit CHR '':'', SDir CHR ''M'', SLit CHR '':'', SDir CHR ''S'', SLit CHR ''.'', SDir CHR ''f'']"
  by (simp add: is_space_def)

lemma rx_10:
  "re_compile (regex_source ''%Y-%m-%d %H:%M:%S.%f'') =
   Some [Group ''year'' Digits 4 (Some 4), Lit CHR ''-'', Group ''month'' Digits 1 (Some 2), Lit CHR ''-'', Group ''day'' Digits 1 (Some 2), Lit CHR '' '', Group ''hour'' Digits 1 (Some 2), Lit CHR '':'', Group ''minute'' Digits 1 (Some 2), Lit CHR '':'', Group ''second'' Digits 1 (Some 2), AnyChar, Group ''microsecond'' Digits 1 None]"
  using re_compile_verbatim [of "''%Y-%m-%d %H:%M:%S.%f''"]
  by (simp add: plain_format_def verbatim_item_def placeholder_item_def REGEX_def metachars_def
      group_names_def)

lemma sx_10:
  "strptime_items ''%Y-%m-%d %H:%M:%S.%f'' =
   Some [SDir CHR ''Y'', SLit CHR ''-'', SDir CHR ''m'', SLit CHR ''-'', SDir CHR ''d'', SSpace, SDir CHR ''H'', SLit CHR '':'', SDir CHR ''M'', SLit CHR '':'', SDir CHR ''S'', SLit CHR ''.'', SDir CHR ''f'']"
  by (simp add: is_space_def)

lemma rx_11:
  "re_compile (regex_source ''%Y-%m-%d %H:%M:%S'') =
   Some [Group ''year'' Digits 4 (Some 4), Lit CHR ''-'', Group ''month'' Digits 1 (Some 2), Lit CHR ''-'', Group ''day'' Digits 1 (Some 2), Lit CHR '' '', Group ''hour'' Digits 1 (Some 2), Lit CHR '':'', Group ''minute'' Digits 1 (Some 2), Lit CHR '':'', Group ''second'' Digits 1 (Some 2)]"
  using re_compile_verbatim [of "''%Y-%m-%d %H:%M:%S''"]
  by (simp add: plain_format_def verbatim_item_def placeholder_item_def REGEX_def metachars_def
      group_names_def)

lemma sx_11:
  "strptime_items ''%Y-%m-%d %H:%M:%S'' =
   Some [SDir CHR ''Y'', SLit CHR ''-'', SDir CHR ''m'', SLit CHR ''-'', SDir CHR ''d'', SSpace, SDir CHR ''H'', SLit CHR '':'', SDir CHR ''M'', SLit CHR '':'', SDir CHR ''S'']"
  by (simp add: is_space_def)

lemma rx_12:
  "re_compile (regex_source ''%Y-%m-%d %H:%M'') =
   Some [Group ''year'' Digits 4 (Some 4), Lit CHR ''-'', Group ''month'' Digits 1 (Some 2), Lit CHR ''-'', Group ''day'' Digits 1 (Some 2), Lit CHR '' '', Group ''hour'' Digits 1 (Some 2), Lit CHR '':'', Group ''minute'' Digits 1 (Some 2)]"
  using re_compile_verbatim [of "''%Y-%m-%d %H:%M''"]
  by (simp add: plain_format_def verbatim_item_def placeholder_item_def REGEX_def metachars_def
      group_names_def)

lemma sx_12:
  "strptime_items ''%Y-%m-%d %H:%M'' =
   Some [SDir CHR ''Y'', SLit CHR ''-'', SDir CHR ''m'', SLit CHR ''-'', SDir CHR ''d'', SSpace, SDir CHR ''H'', SLit CHR '':'', SDir CHR ''M'']"
  by (simp add: is_space_def)

lemma rx_13:
  "re_compile (regex_source ''%Y-%b-%d %H:%M:%S'') =
   Some [Group ''year'' Digits 4 (Some 4), Lit CHR ''-'', Group ''month_str'' Letters 1 None, Lit CHR ''-'', Group ''day'' Digits 1 (Some 2), Lit CHR '' '', Group ''hour'' Digits 1 (Some 2), Lit CHR '':'', Group ''minute'' Digits 1 (Some 2), Lit CHR '':'', Group ''second'' Digits 1 (Some 2)]"
  using re_compile_verbatim [of "''%Y-%b-%d %H:%M:%S''"]
  by (simp add: plain_format_def verbatim_item_def placeholder_item_def REGEX_def metachars_def
      group_names_def)

lemma sx_13:
  "strptime_items ''%Y-%b-%d %H:%M:%S'' =
   Some [SDir CHR ''Y'', SLit CHR ''-'', SDir CHR ''b'', SLit CHR ''-'', SDir CHR ''d'', SSpace, SDir CHR ''H'', SLit CHR '':'', SDir CHR ''M'', SLit CHR '':'', SDir CHR ''S'']"
  by (simp add: is_space_def)

lemma rx_14:
  "re_compile (regex_source ''%Y-%b-%d %H:%M'') =
   Some [Group ''year'' Digits 4 (Some 4), Lit CHR ''-'', Group ''month_str'' Letters 1 None, Lit CHR ''-'', Group ''day'' Digits 1 (Some 2), Lit CHR '' '', Group ''hour'' Digits 1 (Some 2), Lit CHR '':'', Group ''minute'' Digits 1 (Some 2)]"
  using re_compile_verbatim [of "''%Y-%b-%d %H:%M''"]
  by (simp add: plain_format_def verbatim_item_def placeholder_item_def REGEX_def metachars_def
      group_names_def)

lemma sx_14:
  "strptime_items ''%Y-%b-%d %H:%M'' =
   Some [SDir CHR ''Y'', SLit CHR ''-'', SDir CHR ''b'', SLit CHR ''-'', SDir CHR ''d'', SSpace, SDir CHR ''H'', SLit CHR '':'', SDir CHR ''M'']"
  by (simp add: is_space_def)

lemma rx_15:
  "re_compile (regex_source ''%Y-%b-%d'') =
   Some [Group ''year'' Digits 4 (Some 4), Lit CHR ''-'', Group ''month_str'' Letters 1 None, Lit CHR ''-'', Group ''day'' Digits 1 (Some 2)]"
  using re_compile_verbatim [of "''%Y-%b-%d''"]
  by (simp add: plain_format_def verbatim_item_def placeholder_item_def REGEX_def metachars_def
      group_names_def)

lemma sx_15:
  "strptime_items ''%Y-%b-%d'' =
   Some [SDir CHR ''Y'', SLit CHR ''-'', SDir CHR ''b'', SLit CHR ''-'', SDir CHR ''d'']"
  by (simp add: is_space_def)

lemma rx_16:
  "re_compile (regex_source ''%Y-%m-%d'') =
   Some [Group ''year'' Digits 4 (Some 4), Lit CHR ''-'', Group ''month'' Digits 1 (Some 2), Lit CHR ''-'', Group ''day'' Digits 1 (Some 2)]"
  using re_compile_verbatim [of "''%Y-%m-%d''"]
  by (simp add: plain_format_def verbatim_item_def placeholder_item_def REGEX_def metachars_def
      group_names_def)

lemma sx_16:
  "strptime_items ''%Y-%m-%d'' =
   Some [SDir CHR ''Y'', SLit CHR ''-'', SDir CHR ''m'', SLit CHR ''-'', SDir CHR ''d'']"
  by (simp add: is_space_def)

lemma rx_17:
  "re_compile (regex_source ''%Y/%m/%d'') =
   Some [Group ''year'' Digits 4 (Some 4), Lit CHR ''/'', Group ''month'' Digits 1 (Some 2), Lit CHR ''/'', Group ''day'' Digits 1 (Some 2)]"
  using re_compile_verbatim [of "''%Y/%m/%d''"]
  by (simp add: plain_format_def verbatim_item_def placeholder_item_def REGEX_def metachars_def
      group_names_def)

lemma sx_17:
  "strptime_items ''%Y/%m/%d'' =
   Some [SDir CHR ''Y'', SLit CHR ''/'', SDir CHR ''m'', SLit CHR ''/'', SDir CHR ''d'']"
  by (simp add: is_space_def)

lemma rx_18:
  "re_compile (regex_source ''%d-%b-%Y'') =
   Some [Group ''day'' Digits 1 (Some 2), Lit CHR ''-'', Group ''month_str'' Letters 1 None, Lit CHR ''-'', Group ''year'' Digits 4 (Some 4)]"
  using re_compile_verbatim [of "''%d-%b-%Y''"]
  by (simp add: plain_format_def verbatim_item_def placeholder_item_def REGEX_def metachars_def
      group_names_def)

lemma sx_18:
  "strptime_items ''%d-%b-%Y'' =
   Some [SDir CHR ''d'', SLit CHR ''-'', SDir CHR ''b'', SLit CHR ''-'', SDir CHR ''Y'']"
  by (simp add: is_space_def)

lemma rx_19:
  "re_compile (regex_source ''%Y%m%d_%H%M%S'') =
   Some [Group ''year'' Digits 4 (Some 4), Group ''month'' Digits 1 (Some 2), Group ''day'' Digits 1 (Some 2), Lit CHR ''_'', Group ''hour'' Digits 1 (Some 2), Group ''minute'' Digits 1 (Some 2), Group ''second'' Digits 1 (Some 2)]"
  using re_compile_verbatim [of "''%Y%m%d_%H%M%S''"]
  by (simp add: plain_format_def verbatim_item_def placeholder_item_def REGEX_def metachars_def
      group_names_def)

lemma sx_19:
  "strptime_items ''%Y%m%d_%H%M%S'' =
   Some [SDir CHR ''Y'', SDir CHR ''m'', SDir CHR ''d'', SLit CHR ''_'', SDir CHR ''H'', SDir CHR ''M'', SDir CHR ''S'']"
  by (simp add: is_space_def)

text \<open>The position of every format in the catalog.\<close>


lemma catalog_index:
  "index_of ''%Y-%m-%dT%H:%M:%S.%f'' TIME_FORMAT_LIST = 0"
  "index_of ''%Y/%m/%dT%H:%M:%S.%f'' TIME_FORMAT_LIST = 1"
  "index_of ''%Y-%m-%dT%H:%M:%S.%fZ'' TIME_FORMAT_LIST = 2"
  "index_of ''%Y-%m-%dT%H:%M:%S'' TIME_FORMAT_LIST = 3"
  "index_of ''%Y/%m/%dT%H:%M:%S'' TIME_FORMAT_LIST = 4"
  "index_of ''%Y%m%dT%H%M%S.%f'' TIME_FORMAT_LIST = 5"
  "index_of ''%Y%m%dT%H%M%S'' TIME_FORMAT_LIST = 6"
  "index_of ''%Y/%m/%d %H:%M:%S'' TIME_FORMAT_LIST = 7"
  "index_of ''%Y/%m/%d %H:%M'' TIME_FORMAT_LIST = 8"
  "index_of ''%Y/%m/%d %H:%M:%S.%f'' TIME_FORMAT_LIST = 9"
  "index_of ''%Y-%m-%d %H:%M:%S.%f'' TIME_FORMAT_LIST = 10"
  "index_of ''%Y-%m-%d %H:%M:%S'' TIME_FORMAT_LIST = 11"
  "index_of ''%Y-%m-%d %H:%M'' TIME_FORMAT_LIST = 12"
  "index_of ''%Y-%b-%d %H:%M:%S'' TIME_FORMAT_LIST = 13"
  "index_of ''%Y-%b-%d %H:%M'' TIME_FORMAT_LIST = 14"
  "index_of ''%Y-%b-%d'' TIME_FORMAT_LIST = 15"
  "index_of ''%Y-%m-%d'' TIME_FORMAT_LIST = 16"
  "index_of ''%Y/%m/%d'' TIME_FORMAT_LIST = 17"
  "index_of ''%d-%b-%Y'' TIME_FORMAT_LIST = 18"
  "index_of ''%Y%m%d_%H%M%S'' TIME_FORMAT_LIST = 19"
  by (simp_all add: TIME_FORMAT_LIST_def)

lemma span_of_no_group:
  "name \<notin> set (group_names rx) \<Longrightarrow> span_of name rx sps = None"
  by (induction name rx sps rule: span_of.induct) (auto simp: group_names_def)

lemma hour_group_of_token:
  "''hour'' \<in> set (group_names (map verbatim_item ts)) \<Longrightarrow> Placeholder ''%H'' \<in> set ts"
  by (induction ts)
     (auto simp: group_names_def verbatim_item_def placeholder_item_def
           split: ftoken.splits if_splits)

lemma re_match_items: "re_match rx s = Some m \<Longrightarrow> m_items m = rx \<and> m_string m = s"
  by (auto simp: re_match_def split: option.splits)

lemma catalog_prefix_order:
  "list_all (\<lambda>p. list_all (\<lambda>q. strict_prefix p q \<longrightarrow>
      index_of q TIME_FORMAT_LIST < index_of p TIME_FORMAT_LIST \<or>
      (p, q) \<in> {(''%Y-%m-%dT%H:%M:%S.%f'', ''%Y-%m-%dT%H:%M:%S.%fZ''),
                 (''%Y/%m/%d %H:%M:%S'', ''%Y/%m/%d %H:%M:%S.%f''),
                 (''%Y/%m/%d %H:%M'', ''%Y/%m/%d %H:%M:%S.%f'')})
     [''%Y-%m-%dT%H:%M:%S.%f'',
      ''%Y/%m/%dT%H:%M:%S.%f'',
      ''%Y-%m-%dT%H:%M:%S.%fZ'',
      ''%Y-%m-%dT%H:%M:%S'',
      ''%Y/%m/%dT%H:%M:%S'',
      ''%Y%m%dT%H%M%S.%f'',
      ''%Y%m%dT%H%M%S'',
      ''%Y/%m/%d %H:%M:%S'',
      ''%Y/%m/%d %H:%M'',
      ''%Y/%m/%d %H:%M:%S.%f'',
      ''%Y-%m-%d %H:%M:%S.%f'',
      ''%Y-%m-%d %H:%M:%S'',
      ''%Y-%m-%d %H:%M'',
      ''%Y-%b-%d %H:%M:%S'',
      ''%Y-%b-%d %H:%M'',
      ''%Y-%b-%d'',
      ''%Y-%m-%d'',
      ''%Y/%m/%d'',
      ''%d-%b-%Y'',
      ''%Y%m%d_%H%M%S''])
     [''%Y-%m-%dT%H:%M:%S.%f'',
      ''%Y/%m/%dT%H:%M:%S.%f'',
      ''%Y-%m-%dT%H:%M:%S.%fZ'',
      ''%Y-%m-%dT%H:%M:%S'',
      ''%Y/%m/%dT%H:%M:%S'',
      ''%Y%m%dT%H%M%S.%f'',
      ''%Y%m%dT%H%M%S'',
      ''%Y/%m/%d %H:%M:%S'',
      ''%Y/%m/%d %H:%M'',
      ''%Y/%m/%d %H:%M:%S.%f'',
      ''%Y-%m-%d %H:%M:%S.%f'',
      ''%Y-%m-%d %H:%M:%S'',
      ''%Y-%m-%d %H:%M'',
      ''%Y-%b-%d %H:%M:%S'',
      ''%Y-%b-%d %H:%M'',
      ''%Y-%b-%d'',
      ''%Y-%m-%d'',
      ''%Y/%m/%d'',
      ''%d-%b-%Y'',
      ''%Y%m%d_%H%M%S'']"
  by (simp add: catalog_index strict_prefix_def)

section \<open>Which errors reach the caller\<close>

lemma mk_datetime_error: "mk_datetime y mo d h mi s us = Inl e \<Longrightarrow> e = ValueError Field_Out_Of_Range"
  by (auto simp: mk_datetime_def split: if_splits)

lemma strptime_error: "strptime data f = Inl e \<Longrightarrow> \<exists>v. e = ValueError v"
  by (auto simp: strptime_def Let_def split: option.splits if_splits prod.splits
      dest: mk_datetime_error)

lemma normalize_y_m_d_error: "normalize_y_m_d y m d = Inl e \<Longrightarrow> e = OverflowError"
  by (auto simp: normalize_y_m_d_def Let_def split: if_splits prod.splits)

lemma datetime_add_error: "datetime_add dt td = Inl e \<Longrightarrow> e = OverflowError"
  by (auto simp: datetime_add_def Let_def split: prod.splits sum.splits
      dest: normalize_y_m_d_error)

lemma regex_parse_time_error:
  "regex_parse_time v f = Inl e \<Longrightarrow>
   e = TypeError \<or> e = ValueError Malformed_Time \<or> re_compile (regex_source f) = None"
  by (auto simp: regex_parse_time_def split: option.splits if_splits prod.splits)

lemma regex_parse_time_str:
  "regex_parse_time (PStr s) f = Inr (Some (ts, d)) \<Longrightarrow> \<exists>t. ts = PStr t"
  by (auto simp: regex_parse_time_def buffer_of_def same_kind_def
      split: option.splits if_splits prod.splits)

lemma regex_parse_time_str_error:
  "regex_parse_time (PStr s) f = Inl e \<Longrightarrow>
   e = ValueError Malformed_Time \<or> re_compile (regex_source f) = None"
  by (auto simp: regex_parse_time_def buffer_of_def split: option.splits if_splits prod.splits)

lemma strptime_arg_error: "strptime_arg v f = Inl e \<Longrightarrow> e = TypeError \<or> (\<exists>v. e = ValueError v)"
  by (auto simp: strptime_arg_def split: pyval.splits dest: strptime_error)

lemma try_format_raise:
  "try_format v f = Raise e \<Longrightarrow>
   e = OverflowError \<or> e = TypeError \<or> re_compile (regex_source f) = None"
  by (auto simp: try_format_def split: sum.splits error.splits option.splits prod.splits
      dest: regex_parse_time_error strptime_arg_error datetime_add_error)

lemma try_format_raise_str:
  assumes "try_format (PStr s) f = Raise e"
  shows "e = OverflowError \<or> re_compile (regex_source f) = None"
proof (cases "regex_parse_time (PStr s) f")
  case (Inl a)
  with assms regex_parse_time_str_error [OF Inl] show ?thesis
    by (auto simp: try_format_def split: error.splits)
next
  case (Inr r)
  show ?thesis
  proof (cases r)
    case None
    with Inr assms show ?thesis by (simp add: try_format_def)
  next
    case (Some p)
    obtain ts d where p: "p = (ts, d)" by (cases p)
    with Inr Some regex_parse_time_str obtain t where "ts = PStr t" by blast
    with Inr Some p assms show ?thesis
      by (auto simp: try_format_def strptime_arg_def split: sum.splits error.splits
          dest: strptime_error datetime_add_error)
  qed
qed

lemma parse_formats_cases:
  "parse_formats fs v = Inl (ValueError Not_A_Valid_Time_String) \<or>
   (\<exists>g\<in>set fs. \<exists>r. try_format v g = Return r \<and> parse_formats fs v = Inr r) \<or>
   (\<exists>g\<in>set fs. \<exists>e. try_format v g = Raise e \<and> parse_formats fs v = Inl e)"
  by (induction fs) (auto split: trial.splits)

lemma catalog_compiles: "f \<in> set TIME_FORMAT_LIST \<Longrightarrow> re_compile (regex_source f) \<noteq> None"
  using catalog_plain catalog_groups re_compile_verbatim by (fastforce simp: list_all_iff)

lemma parse_formats_error:
  "parse_formats TIME_FORMAT_LIST v = Inl e \<Longrightarrow>
   e = ValueError Not_A_Valid_Time_String \<or> e = OverflowError \<or> e = TypeError"
  using parse_formats_cases [of TIME_FORMAT_LIST v] try_format_raise catalog_compiles
  by fastforce

lemma parse_formats_str_error:
  "parse_formats TIME_FORMAT_LIST (PStr s) = Inl e \<Longrightarrow>
   e = ValueError Not_A_Valid_Time_String \<or> e = OverflowError"
  using parse_formats_cases [of TIME_FORMAT_LIST "PStr s"] try_format_raise_str catalog_compiles
  by fastforce

lemma c_ints_error: "c_ints vs = Inl e \<Longrightarrow> e = TypeError \<or> e = OverflowError"
  by (induction vs arbitrary: e) (auto split: if_splits sum.splits option.splits)

lemma datetime_of_tuple_error:
  "datetime_of_tuple t = Inl e \<Longrightarrow>
   e = TypeError \<or> e = OverflowError \<or> e = ValueError Field_Out_Of_Range"
  by (auto simp: datetime_of_tuple_def split: if_splits sum.splits list.splits option.splits
      dest: c_ints_error mk_datetime_error)

lemma mk_timedelta_error: "mk_timedelta d s = Inl e \<Longrightarrow> e = OverflowError"
  by (auto simp: mk_timedelta_def Let_def split: if_splits)

lemma mk_timedelta_float_error:
  "mk_timedelta_float x = Inl e \<Longrightarrow> e = OverflowError \<or> e = ValueError Float_NaN"
  by (auto simp: mk_timedelta_float_def microseconds_to_delta_def Let_def
      split: if_splits pyfloat.splits)

lemma parse_time_error:
  "parse_time now t = Inl e \<Longrightarrow> e = TypeError \<or> e = OverflowError \<or> (\<exists>v. e = ValueError v)"
  by (auto simp: parse_time_def split: pyval.splits sum.splits
      dest: datetime_of_tuple_error mk_timedelta_error mk_timedelta_float_error
        datetime_add_error parse_formats_error)

lemma try_format_bytearray:
  "re_compile (regex_source f) \<noteq> None \<Longrightarrow>
   try_format (PByteArray b) f =
     (if reaches_strptime (PByteArray b) f then Raise TypeError else Continue)"
  by (auto simp: try_format_def reaches_strptime_def regex_parse_time_def buffer_of_def
      same_kind_def strptime_arg_def split: option.splits prod.splits)

lemma parse_formats_bytearray:
  "\<forall>f\<in>set fs. re_compile (regex_source f) \<noteq> None \<Longrightarrow>
   parse_formats fs (PByteArray b) =
     (if list_ex (reaches_strptime (PByteArray b)) fs then Inl TypeError
      else Inl (ValueError Not_A_Valid_Time_String))"
  by (induction fs) (simp_all add: try_format_bytearray)

section \<open>Adding seconds to the epoch\<close>

lemma divmod_int:
  "a = b * q + r \<Longrightarrow> 0 \<le> r \<Longrightarrow> r < b \<Longrightarrow> (a::int) div b = q \<and> a mod b = r"
  by (simp add: int_div_pos_eq int_mod_pos_eq)
lemma ord_jan_1979: 
  fixes k :: int 
  assumes k: "0 \<le> k" "k \<le> 30"
  shows "ord_to_ymd (722450 + k) = (1979, 1, 1 + k)"
proof -
  have a: "(722449 + k) div 146097 = 4" "(722449 + k) mod 146097 = 138061 + k"
    using k divmod_int [of "722449 + k" 146097 4 "138061 + k"] by simp_all
  have b: "(138061 + k) div 36524 = 3" "(138061 + k) mod 36524 = 28489 + k"
    using k divmod_int [of "138061 + k" 36524 3 "28489 + k"] by simp_all
  have c: "(28489 + k) div 1461 = 19" "(28489 + k) mod 1461 = 730 + k"
    using k divmod_int [of "28489 + k" 1461 19 "730 + k"] by simp_all
  have d: "(730 + k) div 365 = 2" "(730 + k) mod 365 = k"
    using k divmod_int [of "730 + k" 365 2 k] by simp_all
  have e: "k < 14 \<Longrightarrow> (k + 50) div 32 = 1" "\<not> k < 14 \<Longrightarrow> (k + 50) div 32 = 2"
    using k divmod_int [of "k + 50" 32 1 "k + 18"] divmod_int [of "k + 50" 32 2 "k - 14"] by simp_all
  have o: "722450 + k - 1 = 722449 + k" by simp
  show ?thesis
    unfolding ord_to_ymd_def o Let_def a b c d
    using k e by (cases "k < 14") (simp_all add: days_before_month_tab_def days_in_month_def)
qed

lemma ord_to_ymd_722449: "ord_to_ymd 722449 = (1978, 12, 31)"
  by (simp add: ord_to_ymd_def days_before_month_tab_def days_in_month_def is_leap_def Let_def)

lemma ord_to_ymd_722481: "ord_to_ymd 722481 = (1979, 2, 1)"
  by (simp add: ord_to_ymd_def days_before_month_tab_def days_in_month_def is_leap_def Let_def)

lemma ymd_to_ord_epoch: "ymd_to_ord 1979 1 1 = 722450"
  by (simp add: ymd_to_ord_def days_before_year_def days_before_month_def
      days_before_month_tab_def)

lemma normalize_pair_nonneg:
  "0 \<le> lo \<Longrightarrow> 0 < f \<Longrightarrow> normalize_pair hi lo f = (hi + lo div f, lo mod f)"
  by (simp add: normalize_pair_def div_pos_pos_trivial)

lemma normalize_epoch_day:
  "normalize_y_m_d 1979 1 (1 + k) =
     (if 722450 + k < 1 \<or> 722450 + k > 3652059 then Inl OverflowError
      else Inr (ord_to_ymd (722450 + k)))"
proof -
  consider "0 \<le> k \<and> k \<le> 30" | "k = - 1" | "k = 31" | "k < - 1 \<or> 31 < k"
    by linarith
  then show ?thesis
  proof cases
    case 1
    then show ?thesis
      by (simp add: normalize_y_m_d_def days_in_month_def ord_jan_1979)
  next
    case 2
    then show ?thesis
      by (simp add: normalize_y_m_d_def days_in_month_def ord_to_ymd_722449)
  next
    case 3
    then show ?thesis
      by (simp add: normalize_y_m_d_def days_in_month_def ord_to_ymd_722481)
  next
    case 4
    then show ?thesis
      by (auto simp: normalize_y_m_d_def days_in_month_def ymd_to_ord_epoch MAXORDINAL_def
          Let_def)
  qed
qed

lemma epoch_plus_microseconds:
  "(case microseconds_to_delta u of Inl e \<Rightarrow> Inl e | Inr td \<Rightarrow> datetime_add epoch td) =
   after_epoch u"
proof -
  define k where "k = u div 1000000 div 86400"
  define t where "t = u div 1000000 mod 86400"
  define us where "us = u mod 1000000"
  have t: "0 \<le> t" "t < 86400" and us: "0 \<le> us" "us < 1000000"
    by (simp_all add: t_def us_def)
  have h: "t div 60 div 60 = t div 3600"
    by (simp add: zdiv_zmult2_eq [symmetric])
  have k: "u div 86400000000 = k"
    unfolding k_def by (simp add: zdiv_zmult2_eq [symmetric])
  from t have h24: "t div 3600 < 24" "0 \<le> t div 3600" "0 \<le> t div 60"
    by (simp_all add: div_less_iff_less_mult pos_imp_zdiv_nonneg_iff)
  have add: "datetime_add epoch \<lparr>days = k, seconds = t, microseconds = us\<rparr> =
        (case normalize_y_m_d 1979 1 (1 + k) of
           Inl e \<Rightarrow> Inl e
         | Inr (y, mo, d) \<Rightarrow>
             Inr \<lparr>year = y, month = mo, day = d, hour = t div 3600,
                  minute = t div 60 mod 60, second = t mod 60, microsecond = us\<rparr>)"
    using t h24 us
    by (simp add: datetime_add_def epoch_def normalize_pair_nonneg h)
  show ?thesis
  proof (cases "k < - 999999999 \<or> k > 999999999")
    case True
    then show ?thesis
      unfolding microseconds_to_delta_def after_epoch_def ymd_to_ord_epoch MAXORDINAL_def k
      by (auto simp: Let_def k_def)
  next
    case False
    then have "(case microseconds_to_delta u of Inl e \<Rightarrow> Inl e
                | Inr td \<Rightarrow> datetime_add epoch td) =
        datetime_add epoch \<lparr>days = k, seconds = t, microseconds = us\<rparr>"
      by (simp add: microseconds_to_delta_def k_def t_def us_def Let_def)
    then show ?thesis
      unfolding add normalize_epoch_day after_epoch_def ymd_to_ord_epoch MAXORDINAL_def k
      by (simp add: t_def us_def Let_def split: prod.splits)
  qed
qed

lemma mk_timedelta_seconds: "mk_timedelta 0 n = microseconds_to_delta (n * 1000000)"
  by (simp add: mk_timedelta_def microseconds_to_delta_def Let_def)

section \<open>Rounding a number of seconds to microseconds\<close>

lemma set_double_exponents: "set double_exponents = {- 1022..1023}"
  by (simp only: double_exponents_def set_rev set_upto)

lemma binade_le:
  assumes "\<bar>x\<bar> < 2 powi (e + 1)" "- 1022 \<le> e"
  shows "binade x \<le> e"
proof (cases "find (\<lambda>e. 2 powi e \<le> \<bar>x\<bar>) double_exponents")
  case None
  with assms show ?thesis by (simp add: binade_def)
next
  case (Some a)
  then have "2 powi a \<le> \<bar>x\<bar>"
    by (auto simp: find_Some_iff)
  with assms have "(2::rat) powi a < 2 powi (e + 1)" by simp
  then have "a < e + 1"
    using power_int_increasing [of "e + 1" a "2::rat"] by (cases "a < e + 1") auto
  with Some show ?thesis by (simp add: binade_def)
qed

lemma round_half_even_error: "\<bar>of_int (round_half_even z) - z\<bar> \<le> 1 / 2"
  by (auto simp: round_half_even_def Let_def abs_if) linarith+

lemma round_double_error:
  assumes "\<bar>x\<bar> < 2 powi (e + 1)" "- 1022 \<le> e"
  shows "\<bar>round_double x - x\<bar> \<le> 2 powi (e - 53)"
proof -
  define u :: rat where "u = 2 powi (binade x - 52)"
  have u: "0 < u" by (simp add: u_def)
  have "round_double x - x = u * (of_int (round_half_even (x / u)) - x / u)"
    using u by (simp add: round_double_def u_def [symmetric] algebra_simps)
  then have "\<bar>round_double x - x\<bar> = u * \<bar>of_int (round_half_even (x / u)) - x / u\<bar>"
    using u by (simp add: abs_mult)
  also have "\<dots> \<le> u * (1 / 2)"
    using u round_half_even_error [of "x / u"] by (intro mult_left_mono) simp_all
  also have "\<dots> = 2 powi (binade x - 53)"
    by (simp add: u_def power_int_diff)
  also have "\<dots> \<le> 2 powi (e - 53)"
    using binade_le [OF assms] by (intro power_int_increasing) simp_all
  finally show ?thesis .
qed

lemma trunc_frac: "\<bar>x - of_int (trunc x)\<bar> < 1"
  by (auto simp: trunc_def abs_if) linarith+

lemma pow_small:
  "(2::rat) powi (19 - 53) \<le> 1 / 2000000" "(2::rat) powi (0 - 53) \<le> 1 / 2000000"
  by (simp_all add: power_int_def power_divide)

lemma round_to_long_error:
  assumes "\<bar>y\<bar> < 1"
  shows "\<bar>of_int (round_to_long y) - y\<bar> \<le> 1 / 2 + 1 / 2000000"
proof (cases "0 \<le> y")
  case True
  with assms have "\<bar>y + 1 / 2\<bar> < 2 powi (0 + 1)" by simp
  from round_double_error [OF this] pow_small(2)
  have "\<bar>round_double (y + 1 / 2) - (y + 1 / 2)\<bar> \<le> 1 / 2000000" by simp
  with True show ?thesis
    by (simp add: round_to_long_def abs_if split: if_splits) linarith+
next
  case False
  with assms have "\<bar>y - 1 / 2\<bar> < 2 powi (0 + 1)" by simp
  from round_double_error [OF this] pow_small(2)
  have "\<bar>round_double (y - 1 / 2) - (y - 1 / 2)\<bar> \<le> 1 / 2000000" by simp
  with False show ?thesis
    by (simp add: round_to_long_def abs_if split: if_splits) linarith+
qed

lemma float_microseconds_close:
  "\<bar>of_int (float_microseconds q) - q * 1000000\<bar> \<le> 1 / 2 + 1 / 1000000"
proof -
  define ip where "ip = trunc q"
  define fp where "fp = q - of_int ip"
  define dn where "dn = round_double (1000000 * fp)"
  define ip2 where "ip2 = trunc dn"
  define lo where "lo = dn - of_int ip2"
  have fp: "\<bar>fp\<bar> < 1" unfolding fp_def ip_def by (rule trunc_frac)
  then have "\<bar>1000000 * fp\<bar> < 2 powi (19 + 1)" by (simp add: abs_mult)
  from round_double_error [OF this] pow_small(1)
  have dn: "\<bar>dn - 1000000 * fp\<bar> \<le> 1 / 2000000" by (simp add: dn_def)
  have lo: "\<bar>lo\<bar> < 1" unfolding lo_def ip2_def by (rule trunc_frac)
  note r = round_to_long_error [OF lo]
  have q: "q = of_int ip + fp" by (simp add: fp_def)
  have d: "dn = of_int ip2 + lo" by (simp add: lo_def)
  have "float_microseconds q =
      (if fp = 0 then ip * 1000000 else if lo = 0 then ip * 1000000 + ip2
       else ip * 1000000 + ip2 + round_to_long lo)"
    by (simp add: float_microseconds_def Let_def ip_def fp_def dn_def ip2_def lo_def)
  then show ?thesis
    using dn r lo fp unfolding q d
    by (auto simp: abs_if algebra_simps split: if_splits)
qed

lemma float_microseconds_whole: "float_microseconds (of_int n) = n * 1000000"
  by (simp add: float_microseconds_def trunc_def)

lemma float_microseconds_tiny: "float_microseconds (1 / 4194304) = 0"
  using float_microseconds_close [of "1 / 4194304"] by (simp add: abs_if split: if_splits)

section \<open>Valid date-times and the loop over the formats\<close>


lemma mk_datetime_of_valid:
  "valid_datetime dt \<Longrightarrow>
   mk_datetime (year dt) (month dt) (day dt) (hour dt) (minute dt) (second dt) (microsecond dt)
     = Inr dt"
  by (auto simp: mk_datetime_def valid_datetime_def)



lemma datetime_add_zero_days:
  "valid_datetime dt \<Longrightarrow> datetime_add dt (timedelta_days 0) = Inr dt"
  by (simp add: valid_datetime_def datetime_add_def timedelta_days_def normalize_pair_def
      normalize_y_m_d_def)





text \<open>The equations that evaluate a trial of a catalog format on a given string.\<close>

lemmas eval_simps =
  try_format_def regex_parse_time_def buffer_of_def same_kind_def strptime_arg_def re_match_def first_match_def in_class_def is_digit_def
  is_alpha_def is_space_def m_span_def m_group_def slice_def group_or_none_def n_or_eq_def
  int_of_string_def digit_val_def to_lower_def strptime_def dir_alts_def month_abbrs_def
  set_field_def strptime_defaults_def mk_datetime_def days_in_month_def is_leap_def
  datetime_add_def timedelta_days_def normalize_pair_def normalize_y_m_d_def Let_def
  rx_0 rx_1 rx_2 rx_3 rx_4 rx_5 rx_6 rx_7 rx_8 rx_9 rx_10 rx_11 rx_12 rx_13 rx_14 rx_15 rx_16 rx_17 rx_18 rx_19
  sx_0 sx_1 sx_2 sx_3 sx_4 sx_5 sx_6 sx_7 sx_8 sx_9 sx_10 sx_11 sx_12 sx_13 sx_14 sx_15 sx_16 sx_17 sx_18 sx_19

section \<open>The loop of \<open>extract_time\<close>\<close>











section \<open>The claims\<close>


text \<open>
  C6, as the code has it. The claim says that whenever one catalog format is a proper
  prefix of another, the longer one comes earlier in the catalog. The catalog breaks this
  in three places: the format ending in \<open>.%fZ\<close> comes after its prefix ending in \<open>.%f\<close>,
  and \<open>%Y/%m/%d %H:%M:%S.%f\<close> comes after its two prefixes \<open>%Y/%m/%d %H:%M:%S\<close> and
  \<open>%Y/%m/%d %H:%M\<close>. For every other pair of catalog formats in the prefix relation the
  longer format comes first.
\<close>


theorem C6_catalog_order:
  "p \<in> set TIME_FORMAT_LIST \<Longrightarrow> q \<in> set TIME_FORMAT_LIST \<Longrightarrow> strict_prefix p q \<Longrightarrow>
   index_of q TIME_FORMAT_LIST < index_of p TIME_FORMAT_LIST \<or>
   (p, q) \<in> {(''%Y-%m-%dT%H:%M:%S.%f'', ''%Y-%m-%dT%H:%M:%S.%fZ''),
              (''%Y/%m/%d %H:%M:%S'', ''%Y/%m/%d %H:%M:%S.%f''),
              (''%Y/%m/%d %H:%M'', ''%Y/%m/%d %H:%M:%S.%f'')}"
  using catalog_prefix_order unfolding list_all_iff TIME_FORMAT_LIST_def [symmetric] by blast

theorem C6_catalog_order_witness:
  "''%Y-%m-%d'' \<in> set TIME_FORMAT_LIST \<and> ''%Y-%m-%d %H:%M'' \<in> set TIME_FORMAT_LIST \<and>
   strict_prefix ''%Y-%m-%d'' ''%Y-%m-%d %H:%M'' \<and>
   index_of ''%Y-%m-%d %H:%M'' TIME_FORMAT_LIST < index_of ''%Y-%m-%d'' TIME_FORMAT_LIST"
  using C6_catalog_order [of "''%Y-%m-%d''" "''%Y-%m-%d %H:%M''"]
  by (simp add: TIME_FORMAT_LIST_def strict_prefix_def)

text \<open>The first catalog format is a proper prefix of the third, which comes later.\<close>


theorem C6_counterexample:
  "''%Y-%m-%dT%H:%M:%S.%f'' \<in> set TIME_FORMAT_LIST \<and>
   ''%Y-%m-%dT%H:%M:%S.%fZ'' \<in> set TIME_FORMAT_LIST \<and>
   strict_prefix ''%Y-%m-%dT%H:%M:%S.%f'' ''%Y-%m-%dT%H:%M:%S.%fZ'' \<and>
   \<not> index_of ''%Y-%m-%dT%H:%M:%S.%fZ'' TIME_FORMAT_LIST <
       index_of ''%Y-%m-%dT%H:%M:%S.%f'' TIME_FORMAT_LIST"
  by (simp add: TIME_FORMAT_LIST_def strict_prefix_def)

text \<open>
  C8, as the code has it. The compiled expression of every catalog format has one named
  group for each placeholder of the format, in order, and one item for each literal
  character; the literal characters are copied into the expression as they are, not
  escaped, so a literal dot is the wildcard of \<open>re\<close> and every other literal character of
  the catalog matches itself only.
\<close>


theorem C8_compiled_verbatim:
  "f \<in> set TIME_FORMAT_LIST \<Longrightarrow>
   re_compile (regex_source f) = Some (map verbatim_item (format_tokens f))"
  using catalog_plain catalog_groups re_compile_verbatim by (simp add: list_all_iff)

theorem C8_compiled_verbatim_witness:
  "''%S.%f'' \<notin> set TIME_FORMAT_LIST \<and> ''%Y-%m-%dT%H:%M:%S.%f'' \<in> set TIME_FORMAT_LIST \<and>
   re_compile (regex_source ''%Y-%m-%dT%H:%M:%S.%f'') =
   Some [Group ''year'' Digits 4 (Some 4), Lit CHR ''-'', Group ''month'' Digits 1 (Some 2),
         Lit CHR ''-'', Group ''day'' Digits 1 (Some 2), Lit CHR ''T'',
         Group ''hour'' Digits 1 (Some 2), Lit CHR '':'', Group ''minute'' Digits 1 (Some 2),
         Lit CHR '':'', Group ''second'' Digits 1 (Some 2), AnyChar,
         Group ''microsecond'' Digits 1 None]"
  using C8_compiled_verbatim [of "''%Y-%m-%dT%H:%M:%S.%f''"]
  by (simp add: TIME_FORMAT_LIST_def verbatim_item_def placeholder_item_def REGEX_def)

text \<open>The expression of the first catalog format is not the one with the dot escaped:
  it matches a string that has an \<open>x\<close> where the format has its dot.\<close>


theorem C8_counterexample:
  "''%Y-%m-%dT%H:%M:%S.%f'' \<in> set TIME_FORMAT_LIST \<and>
   re_compile (regex_source ''%Y-%m-%dT%H:%M:%S.%f'') \<noteq>
     Some (map escaped_item (format_tokens ''%Y-%m-%dT%H:%M:%S.%f'')) \<and>
   (case re_compile (regex_source ''%Y-%m-%dT%H:%M:%S.%f'') of
      None \<Rightarrow> False
    | Some rx \<Rightarrow> re_match rx ''2007-05-04T21:08:12x999999'' \<noteq> None)"
  by (simp add: rx_0 TIME_FORMAT_LIST_def escaped_item_def placeholder_item_def REGEX_def
      re_match_def first_match_def in_class_def is_digit_def)

text \<open>
  C9, as the code has it. For a catalog format without an hour placeholder,
  \<open>_regex_parse_time\<close> returns the input string unchanged with a zero offset when the
  compiled expression of the format matches the input at its start; when it does not
  match, the result is \<open>(None, None)\<close>, as for a format with an hour placeholder.
\<close>


theorem C9_no_hour_placeholder:
  assumes "f \<in> set TIME_FORMAT_LIST" and "Placeholder ''%H'' \<notin> set (format_tokens f)"
  shows "\<exists>rx. re_compile (regex_source f) = Some rx \<and>
           regex_parse_time (PStr s) f =
             (case re_match rx s of
                None \<Rightarrow> Inr None
              | Some m \<Rightarrow> Inr (Some (PStr s, timedelta_days 0)))"
proof -
  let ?rx = "map verbatim_item (format_tokens f)"
  from assms(1) have rx: "re_compile (regex_source f) = Some ?rx"
    using catalog_plain catalog_groups re_compile_verbatim by (simp add: list_all_iff)
  from assms(2) have "''hour'' \<notin> set (group_names ?rx)"
    using hour_group_of_token by blast
  then have "\<And>m. re_match ?rx s = Some m \<Longrightarrow> m_span m ''hour'' = None"
    by (simp add: m_span_def re_match_items span_of_no_group)
  with rx show ?thesis
    by (simp add: regex_parse_time_def buffer_of_def split: option.splits)
qed

theorem C9_no_hour_placeholder_witness:
  "''%Y-%m-%d'' \<in> set TIME_FORMAT_LIST \<and>
   Placeholder ''%H'' \<notin> set (format_tokens ''%Y-%m-%d'') \<and>
   regex_parse_time (PStr ''2012-08-01 and more'') ''%Y-%m-%d'' =
     Inr (Some (PStr ''2012-08-01 and more'', timedelta_days 0)) \<and>
   regex_parse_time (PStr ''hello'') ''%Y-%m-%d'' = Inr None"
  using C9_no_hour_placeholder [of "''%Y-%m-%d''" "''2012-08-01 and more''"]
    C9_no_hour_placeholder [of "''%Y-%m-%d''" "''hello''"]
  by (simp add: TIME_FORMAT_LIST_def REGEX_def rx_16
      re_match_def first_match_def in_class_def is_digit_def)

text \<open>The date-only format \<open>%Y-%m-%d\<close> does not match \<open>hello\<close>: the result is
  \<open>(None, None)\<close>, not the input with a zero offset. And outside the catalog the
  function need not return at all: the expression of \<open>%Y-%Y\<close>, a format without an hour
  placeholder, names a group twice, and \<open>re\<close> refuses it.\<close>


theorem C9_counterexample:
  "''%Y-%m-%d'' \<in> set TIME_FORMAT_LIST \<and>
   Placeholder ''%H'' \<notin> set (format_tokens ''%Y-%m-%d'') \<and>
   regex_parse_time (PStr ''hello'') ''%Y-%m-%d'' = Inr None \<and>
   regex_parse_time (PStr ''hello'') ''%Y-%m-%d'' \<noteq> Inr (Some (PStr ''hello'', timedelta_days 0)) \<and>
   Placeholder ''%H'' \<notin> set (format_tokens ''%Y-%Y'') \<and>
   regex_parse_time (PStr ''2007-2007'') ''%Y-%Y'' = Inl ReError"
proof -
  have "re_parse (regex_source ''%Y-%Y'') =
      Some [Group ''year'' Digits 4 (Some 4), Lit CHR ''-'', Group ''year'' Digits 4 (Some 4)]"
    using re_parse_verbatim [of "''%Y-%Y''"]
    by (simp add: plain_format_def verbatim_item_def placeholder_item_def REGEX_def metachars_def)
  then have "regex_parse_time (PStr ''2007-2007'') ''%Y-%Y'' = Inl ReError"
    by (simp add: regex_parse_time_def re_compile_def compile_error_def group_names_def)
  then show ?thesis
    by (simp add: TIME_FORMAT_LIST_def REGEX_def regex_parse_time_def buffer_of_def rx_16
        re_match_def first_match_def in_class_def is_digit_def)
qed

text \<open>
  C10, as the code has it. A value that is none of the recognised kinds reaches the loop
  over the formats. If it has no buffer interface (a list, say), \<open>re.match\<close> raises a
  \<open>TypeError\<close> at the first format, the loop is left, and \<open>parse_time\<close> raises the
  \<open>ValueError\<close> "is not a valid time string", the one it raises for a string that no
  format parses; \<open>is_time\<close> catches it and returns \<open>False\<close>. A \<open>bytearray\<close> is matched like
  a string: as soon as \<open>_regex_parse_time\<close> returns it for some catalog format,
  \<open>datetime.strptime\<close> raises a \<open>TypeError\<close>, which neither \<open>parse_time\<close> nor \<open>is_time\<close>
  catches; only when that happens for no catalog format is the result the same as for a
  list.
\<close>


theorem C10_unrecognised_type:
  "parse_time now (PList xs) = Inl (ValueError Not_A_Valid_Time_String) \<and>
   is_time now (PList xs) = Inr False \<and>
   parse_time now (PByteArray b) =
     (if list_ex (reaches_strptime (PByteArray b)) TIME_FORMAT_LIST then Inl TypeError
      else Inl (ValueError Not_A_Valid_Time_String)) \<and>
   is_time now (PByteArray b) =
     (if list_ex (reaches_strptime (PByteArray b)) TIME_FORMAT_LIST then Inl TypeError
      else Inr False)"
proof -
  have "parse_time now (PList xs) = Inl (ValueError Not_A_Valid_Time_String)"
    by (simp add: parse_time_def TIME_FORMAT_LIST_def try_format_def regex_parse_time_def
        buffer_of_def rx_0)
  moreover have "parse_time now (PByteArray b) =
     (if list_ex (reaches_strptime (PByteArray b)) TIME_FORMAT_LIST then Inl TypeError
      else Inl (ValueError Not_A_Valid_Time_String))"
    using parse_formats_bytearray [of TIME_FORMAT_LIST b] catalog_compiles
    by (simp add: parse_time_def)
  ultimately show ?thesis
    by (simp add: is_time_def)
qed

theorem C10_unrecognised_type_witness:
  "parse_time epoch (PList [PInt 2012, PInt 8, PInt 1]) = Inl (ValueError Not_A_Valid_Time_String) \<and>
   is_time epoch (PList [PInt 2012, PInt 8, PInt 1]) = Inr False \<and>
   \<not> list_ex (reaches_strptime (PByteArray ''hello'')) TIME_FORMAT_LIST \<and>
   parse_time epoch (PByteArray ''hello'') = Inl (ValueError Not_A_Valid_Time_String) \<and>
   is_time epoch (PByteArray ''hello'') = Inr False"
proof -
  have "\<not> list_ex (reaches_strptime (PByteArray ''hello'')) TIME_FORMAT_LIST"
    by (simp add: TIME_FORMAT_LIST_def reaches_strptime_def eval_simps)
  with C10_unrecognised_type [of epoch "[PInt 2012, PInt 8, PInt 1]" "''hello''"]
  show ?thesis by simp
qed

text \<open>The catalog format \<open>%Y-%m-%d\<close> matches the bytes of
  \<open>bytearray('2012-08-01')\<close>, an object that is not absent, not a date-time, not a tuple,
  not a number and not a string: \<open>parse_time\<close> fails with a \<open>TypeError\<close>, and \<open>is_time\<close>
  raises it.\<close>

theorem C10_counterexample:
  "regex_parse_time (PByteArray ''2012-08-01'') ''%Y-%m-%d'' =
     Inr (Some (PByteArray ''2012-08-01'', timedelta_days 0)) \<and>
   parse_time epoch (PByteArray ''2012-08-01'') = Inl TypeError \<and>
   is_time epoch (PByteArray ''2012-08-01'') = Inl TypeError"
proof -
  have "parse_time epoch (PByteArray ''2012-08-01'') = Inl TypeError"
    by (simp add: parse_time_def TIME_FORMAT_LIST_def eval_simps)
  moreover have "regex_parse_time (PByteArray ''2012-08-01'') ''%Y-%m-%d'' =
     Inr (Some (PByteArray ''2012-08-01'', timedelta_days 0))"
    by (simp add: eval_simps)
  ultimately show ?thesis
    by (simp add: is_time_def)
qed

text \<open>
  C7, as the code has it. \<open>is_time\<close> returns \<open>True\<close> when \<open>parse_time\<close> succeeds and
  \<open>False\<close> when \<open>parse_time\<close> fails with a \<open>ValueError\<close>, which is the failure of a tuple
  whose components are out of their calendar ranges. It catches nothing else: when
  \<open>parse_time\<close> fails with another error, \<open>is_time\<close> raises that error, and the error is
  a \<open>TypeError\<close> or an \<open>OverflowError\<close>.
\<close>

theorem C7_is_time:
  "(\<forall>dt. parse_time now t = Inr dt \<longrightarrow> is_time now t = Inr True) \<and>
   (\<forall>v. parse_time now t = Inl (ValueError v) \<longrightarrow> is_time now t = Inr False) \<and>
   (\<forall>e. parse_time now t = Inl e \<longrightarrow> (\<forall>v. e \<noteq> ValueError v) \<longrightarrow>
        is_time now t = Inl e \<and> (e = TypeError \<or> e = OverflowError))"
proof (intro conjI allI impI)
  fix dt assume "parse_time now t = Inr dt"
  then show "is_time now t = Inr True"
    by (cases t) (simp_all add: is_time_def)
next
  fix v assume "parse_time now t = Inl (ValueError v)"
  then show "is_time now t = Inr False"
    by (cases t) (simp_all add: is_time_def parse_time_def)
next
  fix e assume e: "parse_time now t = Inl e" "\<forall>v. e \<noteq> ValueError v"
  then show "is_time now t = Inl e"
    by (cases t; cases e) (simp_all add: is_time_def parse_time_def)
  from e parse_time_error [of now t e] show "e = TypeError \<or> e = OverflowError"
    by auto
qed

theorem C7_is_time_witness:
  "parse_time epoch (PTuple [PInt 2007, PInt 13, PInt 1]) = Inl (ValueError Field_Out_Of_Range) \<and>
   is_time epoch (PTuple [PInt 2007, PInt 13, PInt 1]) = Inr False"
  using C7_is_time [of epoch "PTuple [PInt 2007, PInt 13, PInt 1]"]
  by (simp add: parse_time_def datetime_of_tuple_def pickle_state_def as_integer_def
      mk_datetime_def numeral_eq_Suc)

text \<open>A tuple of two components makes the \<open>datetime\<close> constructor raise a
  \<open>TypeError\<close>, a number of seconds beyond the range of \<open>timedelta\<close> an \<open>OverflowError\<close>;
  \<open>is_time\<close> raises both.\<close>

theorem C7_counterexample:
  "parse_time epoch (PTuple [PInt 2007, PInt 5]) = Inl TypeError \<and>
   is_time epoch (PTuple [PInt 2007, PInt 5]) = Inl TypeError \<and>
   is_time epoch (PInt 1000000000000000) = Inl OverflowError"
  by (simp add: is_time_def parse_time_def datetime_of_tuple_def pickle_state_def
      as_integer_def mk_timedelta_def)

text \<open>
  C1, as the code has it. \<open>timedelta(0, n)\<close> is zero days and \<open>n\<close> seconds, not \<open>n\<close> days.
  For an \<open>int\<close> \<open>n\<close>, \<open>parse_time\<close> returns the epoch 1979-01-01 00:00:00 plus \<open>n\<close>
  seconds. For a finite \<open>float\<close> it returns the epoch plus a whole number of
  microseconds, which is the number of seconds rounded to the nearest microsecond: it
  differs from a million times the number by at most a half and a millionth, and is
  exact for a whole number of seconds. In both cases a date outside the years 1 to 9999
  is an \<open>OverflowError\<close>. An infinite \<open>float\<close> is an \<open>OverflowError\<close>, a NaN a
  \<open>ValueError\<close>, and an integer of type \<open>long\<close> is not taken for a number at all: it
  ends in the \<open>ValueError\<close> "is not a valid time string".
\<close>

theorem C1_numeric_seconds:
  "(int_object n \<longrightarrow> parse_time now (PInt n) = after_epoch (n * 1000000)) \<and>
   parse_time now (PLong n) = Inl (ValueError Not_A_Valid_Time_String) \<and>
   parse_time now (PFloat (Finite q)) = after_epoch (float_microseconds q) \<and>
   \<bar>of_int (float_microseconds q) - q * 1000000\<bar> \<le> 1 / 2 + 1 / 1000000 \<and>
   (q = of_int n \<longrightarrow> float_microseconds q = n * 1000000) \<and>
   parse_time now (PFloat PosInf) = Inl OverflowError \<and>
   parse_time now (PFloat NegInf) = Inl OverflowError \<and>
   parse_time now (PFloat NaN) = Inl (ValueError Float_NaN)"
proof -
  have "parse_time now (PInt n) = after_epoch (n * 1000000)"
    by (simp add: parse_time_def mk_timedelta_seconds epoch_plus_microseconds)
  moreover have "parse_time now (PLong n) = Inl (ValueError Not_A_Valid_Time_String)"
    by (simp add: parse_time_def TIME_FORMAT_LIST_def try_format_def regex_parse_time_def
        buffer_of_def rx_0)
  moreover have "parse_time now (PFloat (Finite q)) = after_epoch (float_microseconds q)"
    by (simp add: parse_time_def mk_timedelta_float_def epoch_plus_microseconds)
  moreover have "parse_time now (PFloat PosInf) = Inl OverflowError"
    "parse_time now (PFloat NegInf) = Inl OverflowError"
    "parse_time now (PFloat NaN) = Inl (ValueError Float_NaN)"
    by (simp_all add: parse_time_def mk_timedelta_float_def)
  ultimately show ?thesis
    using float_microseconds_close [of q] float_microseconds_whole [of n] by simp
qed

theorem C1_numeric_seconds_witness:
  "int_object 86401 \<and>
   parse_time epoch (PInt 86401) =
     Inr \<lparr>year = 1979, month = 1, day = 2, hour = 0, minute = 0, second = 1, microsecond = 0\<rparr> \<and>
   parse_time epoch (PFloat (Finite 86401)) =
     Inr \<lparr>year = 1979, month = 1, day = 2, hour = 0, minute = 0, second = 1, microsecond = 0\<rparr>"
  using C1_numeric_seconds [of 86401 epoch "of_int 86401"]
  by (simp add: int_object_def after_epoch_def ymd_to_ord_epoch MAXORDINAL_def ord_to_ymd_def
      days_before_month_tab_def days_in_month_def)

text \<open>For \<open>n = 1\<close> the result is one second after the epoch, not one day after it. The
  \<open>long\<close> \<open>1L\<close> is no number for \<open>parse_time\<close>. A number of seconds too large for the
  calendar is an \<open>OverflowError\<close>. The \<open>float\<close> \<open>2.0 ** -22\<close>, a quarter of a microsecond,
  gives the epoch itself, and a NaN a \<open>ValueError\<close>.\<close>

theorem C1_counterexample:
  "parse_time epoch (PInt 1) =
     Inr \<lparr>year = 1979, month = 1, day = 1, hour = 0, minute = 0, second = 1, microsecond = 0\<rparr> \<and>
   datetime_add epoch (timedelta_days 1) =
     Inr \<lparr>year = 1979, month = 1, day = 2, hour = 0, minute = 0, second = 0, microsecond = 0\<rparr> \<and>
   parse_time epoch (PInt 1) \<noteq> datetime_add epoch (timedelta_days 1) \<and>
   parse_time epoch (PLong 1) = Inl (ValueError Not_A_Valid_Time_String) \<and>
   parse_time epoch (PInt 1000000000000000) = Inl OverflowError \<and>
   parse_time epoch (PFloat (Finite (1 / 4194304))) = Inr epoch \<and>
   parse_time epoch (PFloat NaN) = Inl (ValueError Float_NaN)"
proof -
  have "parse_time epoch (PLong 1) = Inl (ValueError Not_A_Valid_Time_String)"
    by (simp add: parse_time_def TIME_FORMAT_LIST_def try_format_def regex_parse_time_def
        buffer_of_def rx_0)
  moreover have "parse_time epoch (PFloat (Finite (1 / 4194304))) = Inr epoch"
    by (simp add: parse_time_def mk_timedelta_float_def float_microseconds_tiny
        microseconds_to_delta_def datetime_add_def epoch_def normalize_pair_def
        normalize_y_m_d_def days_in_month_def)
  ultimately show ?thesis
    by (simp add: parse_time_def mk_timedelta_def mk_timedelta_float_def datetime_add_def
        epoch_def timedelta_days_def normalize_pair_def normalize_y_m_d_def days_in_month_def)
qed









end
